theory Spec2Isabelle
  imports Main
begin

section \<open>Python values, files and the outside world\<close>

text \<open>
  The front end (\<^verbatim>\<open>gradio_app/app.py\<close>) is an orchestration of external effects: temporary
  files, one HTTP POST and a JSON history file. The functions of the source are embedded as
  HOL functions over an explicit \<open>world\<close> (the files and a counter of HTTP requests issued);
  everything the source obtains from outside (clock, encoders, the transport, the JSON
  library, and the faults that its \<^verbatim>\<open>try/except\<close> blocks and guards anticipate) is a field
  of the record \<open>env\<close>. Strings are byte strings in UTF-8.
\<close>

type_synonym path = string
type_synonym bytes = string

text \<open>The Python values that occur: what \<^verbatim>\<open>json.load\<close> returns and what the history holds.
  A \<open>PDict\<close> lists the items of a dict (keys unique).\<close>

datatype pyval =
    PNone
  | PBool bool
  | PInt int
  | PStr string
  | PList "pyval list"
  | PDict "(string \<times> pyval) list"

record world =
  files :: "path \<rightharpoonup> bytes"
  net_calls :: nat

text \<open>
  What a file write may do instead of succeeding. \<open>Raises m left\<close>: an exception with text
  \<open>m\<close>; \<open>left = None\<close> when the file was never opened (it is untouched), \<open>Some b\<close> when it was
  created and \<open>b\<close> is what reached it. \<open>Vanishes\<close> and \<open>Truncates\<close>: the call returns normally
  but afterwards the file does not exist, or is empty (the cases the guards after the two
  audio writes test for).
\<close>

datatype write_fault = Raises string "bytes option" | Vanishes | Truncates

record response =
  status_code :: int
  content :: bytes

text \<open>The exceptions of \<^verbatim>\<open>requests.post\<close>, by the \<^verbatim>\<open>except\<close> clause that catches them
  (clauses are tried in this order).\<close>

datatype post_exn = TimeoutExc | ConnectionErrorExc | OtherExc string

text \<open>
  The environment of one call. \<open>tmpdir\<close> is \<^verbatim>\<open>tempfile.gettempdir()\<close>; \<open>now_hms\<close> is
  \<^verbatim>\<open>datetime.now().strftime("%H:%M:%S")\<close>; \<open>time_in\<close> and \<open>time_out\<close> are the two readings of
  \<^verbatim>\<open>int(time.time())\<close> that name the input and the output file. \<open>wav_encode\<close> gives the bytes
  that \<^verbatim>\<open>scipy.io.wavfile.write\<close> produces, \<open>requests_post\<close> what \<^verbatim>\<open>requests.post\<close> does with
  the URL, the uploaded file (name, bytes, type) and the timeout. \<open>json_dumps\<close> and
  \<open>json_loads\<close> are \<^verbatim>\<open>json.dump(..., ensure_ascii=False, indent=2)\<close> and \<^verbatim>\<open>json.load\<close> on the
  text of the history file, \<open>response_json\<close> is \<^verbatim>\<open>response.json()\<close> on a body (\<open>None\<close>: it
  raises), \<open>py_str\<close> is \<^verbatim>\<open>str()\<close>. The faults say what goes wrong at the four places where
  the source opens a file inside a \<^verbatim>\<open>try\<close>: writing the input audio (\<open>wav_fault\<close>), opening
  it for the upload (\<open>open_fault\<close>), writing the output audio (\<open>out_fault\<close>), writing and
  reading the history file (\<open>save_fault\<close>, \<open>load_fault\<close>); \<open>None\<close> is no fault. Operations
  \<open>remove_fault\<close> is the exception that \<^verbatim>\<open>os.remove\<close> raises, which \<^verbatim>\<open>clear_history\<close> does not
  catch. \<open>start_fault\<close> is an exception raised by the statements of \<^verbatim>\<open>voice_chat\<close> that come
  before its \<^verbatim>\<open>try\<close> (lines 45 to 49: the clock, the logger, the first call of the progress
  callback).
\<close>

record env =
  tmpdir :: path
  now_hms :: string
  time_in :: int
  time_out :: int
  wav_encode :: "int \<Rightarrow> int list \<Rightarrow> bytes"
  wav_fault :: "write_fault option"
  open_fault :: "string option"
  requests_post :: "string \<Rightarrow> string \<times> bytes \<times> string \<Rightarrow> nat \<Rightarrow> post_exn + response"
  out_fault :: "write_fault option"
  save_fault :: "write_fault option"
  load_fault :: "string option"
  remove_fault :: "string option"
  start_fault :: "string option"
  json_loads :: "bytes \<Rightarrow> pyval option"
  json_dumps :: "pyval \<Rightarrow> bytes"
  response_json :: "bytes \<Rightarrow> pyval option"
  py_str :: "pyval \<Rightarrow> string"

subsection \<open>File operations\<close>

definition os_path_exists :: "world \<Rightarrow> path \<Rightarrow> bool" where
  "os_path_exists w p = (files w p \<noteq> None)"

text \<open>The size is asked only for a file that exists (the condition that asks for it tests
  \<^verbatim>\<open>os.path.exists\<close> first).\<close>

definition os_path_getsize :: "world \<Rightarrow> path \<Rightarrow> nat" where
  "os_path_getsize w p = (case files w p of None \<Rightarrow> 0 | Some b \<Rightarrow> length b)"

text \<open>\<^verbatim>\<open>os.remove\<close>; the first component is the exception raised, if any, and then the file
  is left as it was.\<close>

definition os_remove :: "string option \<Rightarrow> path \<Rightarrow> world \<Rightarrow> string option \<times> world" where
  "os_remove fault p w =
     (case fault of
        Some exn \<Rightarrow> (Some exn, w)
      | None \<Rightarrow>
          (if files w p = None then (Some ''No such file or directory'', w)
           else (None, w\<lparr>files := (files w)(p := None)\<rparr>)))"

text \<open>\<^verbatim>\<open>os.path.join\<close> (POSIX) of a directory and one more component.\<close>

definition path_join :: "path \<Rightarrow> path \<Rightarrow> path" where
  "path_join a b =
     (if b \<noteq> [] \<and> hd b = CHR ''/'' then b
      else if a = [] \<or> last a = CHR ''/'' then a @ b
      else a @ ''/'' @ b)"

text \<open>Opening a file for writing and writing \<open>b\<close> to it; the first component is the
  exception raised, if any.\<close>

fun write_file :: "write_fault option \<Rightarrow> path \<Rightarrow> bytes \<Rightarrow> world \<Rightarrow> string option \<times> world" where
  "write_file None p b w = (None, w\<lparr>files := (files w)(p \<mapsto> b)\<rparr>)"
| "write_file (Some (Raises m None)) p b w = (Some m, w)"
| "write_file (Some (Raises m (Some b'))) p b w = (Some m, w\<lparr>files := (files w)(p \<mapsto> b')\<rparr>)"
| "write_file (Some Vanishes) p b w = (None, w\<lparr>files := (files w)(p := None)\<rparr>)"
| "write_file (Some Truncates) p b w = (None, w\<lparr>files := (files w)(p \<mapsto> [])\<rparr>)"

text \<open>Opening a file for reading and reading all of it.\<close>

fun read_file :: "string option \<Rightarrow> path \<Rightarrow> world \<Rightarrow> string + bytes" where
  "read_file (Some m) p w = Inl m"
| "read_file None p w =
     (case files w p of None \<Rightarrow> Inl ''No such file or directory'' | Some b \<Rightarrow> Inr b)"

subsection \<open>Formatting\<close>

fun digits :: "nat \<Rightarrow> string" where
  "digits n =
     (if n < 10 then [''0123456789'' ! n]
      else digits (n div 10) @ [''0123456789'' ! (n mod 10)])"

declare digits.simps [simp del]

definition str_int :: "int \<Rightarrow> string" where
  "str_int i = (if i < 0 then CHR ''-'' # digits (nat (- i)) else digits (nat i))"

text \<open>An f-string field \<^verbatim>\<open>{v}\<close>: a \<^verbatim>\<open>str\<close> is inserted as it is, any other value through
  \<^verbatim>\<open>str()\<close>.\<close>

definition format_value :: "env \<Rightarrow> pyval \<Rightarrow> string" where
  "format_value e v = (case v of PStr s \<Rightarrow> s | _ \<Rightarrow> py_str e v)"

subsection \<open>Constants and messages of the source\<close>

definition HISTORY_PATH :: "env \<Rightarrow> path" where
  "HISTORY_PATH e = path_join (tmpdir e) ''voice_chat_history.json''"

definition API_URL :: string where
  "API_URL = ''http://localhost:8000/voice-chat''"

definition REQUEST_TIMEOUT :: nat where
  "REQUEST_TIMEOUT = 300"

text \<open>The pictographs that open the messages, in UTF-8.\<close>

definition warning_sign :: string where
  "warning_sign = [CHR 0xE2, CHR 0x9A, CHR 0xA0, CHR 0xEF, CHR 0xB8, CHR 0x8F]"

definition clock_sign :: string where
  "clock_sign = [CHR 0xF0, CHR 0x9F, CHR 0x95, CHR 0x92]"

definition plug_sign :: string where
  "plug_sign = [CHR 0xF0, CHR 0x9F, CHR 0x94, CHR 0x8C]"

definition red_circle :: string where
  "red_circle = [CHR 0xF0, CHR 0x9F, CHR 0x94, CHR 0xB4]"

definition microphone_sign :: string where
  "microphone_sign = [CHR 0xF0, CHR 0x9F, CHR 0x8E, CHR 0xA4]"

definition speaker_sign :: string where
  "speaker_sign = [CHR 0xF0, CHR 0x9F, CHR 0x94, CHR 0x8A]"

definition check_mark :: string where
  "check_mark = [CHR 0xE2, CHR 0x9C, CHR 0x85]"

definition wastebasket_sign :: string where
  "wastebasket_sign = [CHR 0xF0, CHR 0x9F, CHR 0x97, CHR 0x91, CHR 0xEF, CHR 0xB8, CHR 0x8F]"

definition msg_no_input :: string where
  "msg_no_input = warning_sign @ '' Mohon rekam suara terlebih dahulu''"

definition msg_save_failed :: string where
  "msg_save_failed = warning_sign @ '' Gagal menyimpan file audio''"

definition msg_timeout :: string where
  "msg_timeout = clock_sign @
     '' Waktu permintaan habis. Server membutuhkan waktu terlalu lama untuk merespons.''"

definition msg_connection :: string where
  "msg_connection = plug_sign @
     '' Tidak dapat terhubung ke server. Pastikan server berjalan di http://localhost:8000''"

definition msg_request_error :: "string \<Rightarrow> string" where
  "msg_request_error exn = red_circle @ '' Error: '' @ exn"

definition msg_empty_response :: string where
  "msg_empty_response = warning_sign @ '' Server mengembalikan respons kosong''"

definition msg_invalid_output :: string where
  "msg_invalid_output = warning_sign @ '' File audio respons kosong atau tidak valid''"

definition msg_output_failed :: "string \<Rightarrow> string" where
  "msg_output_failed exn = warning_sign @ '' Gagal menyimpan file audio respons: '' @ exn"

definition msg_server_error :: "string \<Rightarrow> string" where
  "msg_server_error detail = warning_sign @ '' Server Error: '' @ detail"

definition msg_unexpected :: "string \<Rightarrow> string" where
  "msg_unexpected exn = warning_sign @ '' Terjadi kesalahan: '' @ exn"

definition msg_success :: string where
  "msg_success = check_mark @ '' Berhasil mendapatkan respons''"

definition msg_cleared :: string where
  "msg_cleared = wastebasket_sign @ '' Riwayat percakapan telah dihapus''"

definition user_message :: string where
  "user_message = microphone_sign @ '' Pesan Suara''"

definition ai_message :: string where
  "ai_message = speaker_sign @ '' Balasan Suara''"

definition status_text :: "int \<Rightarrow> string" where
  "status_text code = ''Kode status: '' @ str_int code"

text \<open>The names of the two audio files, from the clock in whole seconds.\<close>

definition audio_filename :: "env \<Rightarrow> string" where
  "audio_filename e = ''input_'' @ str_int (time_in e) @ ''.wav''"

definition audio_path :: "env \<Rightarrow> path" where
  "audio_path e = path_join (tmpdir e) (audio_filename e)"

definition output_audio_path :: "env \<Rightarrow> path" where
  "output_audio_path e = path_join (tmpdir e) (''tts_output_'' @ str_int (time_out e) @ ''.wav'')"

section \<open>The history store\<close>

text \<open>\<^verbatim>\<open>load_chat_history\<close> (lines 21 to 29): whatever \<^verbatim>\<open>json.load\<close> returns, and the empty
  list when the file is absent or when opening, reading or parsing it raises.\<close>

definition load_chat_history :: "env \<Rightarrow> world \<Rightarrow> pyval" where
  "load_chat_history e w =
     (if os_path_exists w (HISTORY_PATH e) then
        (case read_file (load_fault e) (HISTORY_PATH e) w of
           Inl exn \<Rightarrow> PList []
         | Inr text \<Rightarrow>
             (case json_loads e text of
                None \<Rightarrow> PList []
              | Some v \<Rightarrow> v))
      else PList [])"

text \<open>\<^verbatim>\<open>save_chat_history\<close> (lines 32 to 37): a whole-file overwrite; an exception is logged
  and dropped.\<close>

definition save_chat_history :: "env \<Rightarrow> pyval \<Rightarrow> world \<Rightarrow> world" where
  "save_chat_history e history w =
     (case write_file (save_fault e) (HISTORY_PATH e) (json_dumps e history) w of
        (exn, w') \<Rightarrow> w')"

text \<open>\<^verbatim>\<open>clear_history\<close> (lines 156 to 159). The call of \<^verbatim>\<open>os.remove\<close> is not inside a \<^verbatim>\<open>try\<close>:
  \<open>Inl\<close> is its exception, which leaves \<^verbatim>\<open>clear_history\<close>.\<close>

definition clear_history :: "env \<Rightarrow> world \<Rightarrow> (string + pyval list \<times> string) \<times> world" where
  "clear_history e w =
     (if os_path_exists w (HISTORY_PATH e) then
        (case os_remove (remove_fault e) (HISTORY_PATH e) w of
           (Some exn, w') \<Rightarrow> (Inl exn, w')
         | (None, w') \<Rightarrow> (Inr ([], msg_cleared), w'))
      else (Inr ([], msg_cleared), w))"

section \<open>The interaction\<close>

type_synonym audio = "int \<times> int list"
type_synonym result = "path option \<times> pyval list \<times> string"

text \<open>An error turn and a success turn, as the \<^verbatim>\<open>return\<close> statements build them, and the
  triple that every \<^verbatim>\<open>return\<close> after the request and the outer handler give:
  \<^verbatim>\<open>None, history + [[error_msg, None, timestamp]], error_msg\<close>.\<close>

definition error_turn :: "string \<Rightarrow> string \<Rightarrow> pyval" where
  "error_turn error_msg timestamp = PList [PStr error_msg, PNone, PStr timestamp]"

definition success_turn :: "string \<Rightarrow> pyval" where
  "success_turn timestamp = PList [PStr user_message, PStr ai_message, PStr timestamp]"

definition error_result :: "pyval list \<Rightarrow> string \<Rightarrow> string \<Rightarrow> result" where
  "error_result history error_msg timestamp =
     (None, history @ [error_turn error_msg timestamp], error_msg)"

text \<open>The inner \<^verbatim>\<open>try\<close> (lines 71 to 79): open the input file and POST it. A failure to open
  the file is caught by the same \<^verbatim>\<open>except Exception\<close> as a transport error that is neither a
  timeout nor a connection error; no request has been issued then.\<close>

definition send_request :: "env \<Rightarrow> world \<Rightarrow> (post_exn + response) \<times> world" where
  "send_request e w =
     (case read_file (open_fault e) (audio_path e) w of
        Inl exn \<Rightarrow> (Inl (OtherExc exn), w)
      | Inr f \<Rightarrow>
          (requests_post e API_URL (audio_filename e, f, ''audio/wav'') REQUEST_TIMEOUT,
           w\<lparr>net_calls := net_calls w + 1\<rparr>))"

text \<open>The detail of a server error (lines 141 to 145): the \<^verbatim>\<open>message\<close> item of the body when the body is a
  JSON object that has one, the status code otherwise (empty body, a body that does not
  parse, a JSON value that is no object, an object without the item).\<close>

definition error_detail :: "env \<Rightarrow> response \<Rightarrow> string" where
  "error_detail e r =
     (if content r \<noteq> [] then
        (case response_json e (content r) of
           Some (PDict items) \<Rightarrow>
             (case map_of items ''message'' of
                Some v \<Rightarrow> format_value e v
              | None \<Rightarrow> status_text (status_code r))
         | _ \<Rightarrow> status_text (status_code r))
      else status_text (status_code r))"

text \<open>What follows the request (lines 100 to 148). Status 200 is the only success status;
  the write of the output file and the test of its existence and size are inside one
  \<^verbatim>\<open>try\<close>.\<close>

definition handle_response :: "env \<Rightarrow> response \<Rightarrow> pyval list \<Rightarrow> string \<Rightarrow> world \<Rightarrow> result \<times> world" where
  "handle_response e r history timestamp w =
     (if status_code r = 200 then
        (if content r = [] then (error_result history msg_empty_response timestamp, w)
         else
           (case write_file (out_fault e) (output_audio_path e) (content r) w of
              (Some exn, w1) \<Rightarrow> (error_result history (msg_output_failed exn) timestamp, w1)
            | (None, w1) \<Rightarrow>
                (if \<not> os_path_exists w1 (output_audio_path e)
                    \<or> os_path_getsize w1 (output_audio_path e) = 0
                 then (error_result history msg_invalid_output timestamp, w1)
                 else
                   (let new_history = history @ [success_turn timestamp];
                        w2 = save_chat_history e (PList new_history) w1
                    in ((Some (output_audio_path e), new_history, msg_success), w2)))))
      else (error_result history (msg_server_error (error_detail e r)) timestamp, w))"

text \<open>The body of the outer \<^verbatim>\<open>try\<close> (lines 52 to 148); \<open>Inl\<close> is an exception that reaches
  the outer \<^verbatim>\<open>except Exception\<close> (raised by the audio encoder and writer). The three
  handlers of the inner \<^verbatim>\<open>try\<close> (lines 83 to 96) are the three \<open>Inl\<close> cases of the request.\<close>

definition voice_chat_try :: "env \<Rightarrow> audio \<Rightarrow> pyval list \<Rightarrow> string \<Rightarrow> world \<Rightarrow> (string + result) \<times> world" where
  "voice_chat_try e audio history timestamp w =
     (case audio of (sr, audio_data) \<Rightarrow>
        (case write_file (wav_fault e) (audio_path e) (wav_encode e sr audio_data) w of
           (Some exn, w1) \<Rightarrow> (Inl exn, w1)
         | (None, w1) \<Rightarrow>
             (if \<not> os_path_exists w1 (audio_path e)
              then (Inr (None, history, msg_save_failed), w1)
              else
                (case send_request e w1 of
                   (Inl TimeoutExc, w2) \<Rightarrow> (Inr (error_result history msg_timeout timestamp), w2)
                 | (Inl ConnectionErrorExc, w2) \<Rightarrow>
                     (Inr (error_result history msg_connection timestamp), w2)
                 | (Inl (OtherExc exn), w2) \<Rightarrow>
                     (Inr (error_result history (msg_request_error exn) timestamp), w2)
                 | (Inr r, w2) \<Rightarrow>
                     (case handle_response e r history timestamp w2 of
                        (res, w3) \<Rightarrow> (Inr res, w3))))))"

text \<open>\<^verbatim>\<open>voice_chat\<close> (lines 40 to 153): the test for missing audio, then the outer \<^verbatim>\<open>try\<close>
  with its handler.\<close>

definition voice_chat :: "env \<Rightarrow> audio option \<Rightarrow> pyval list \<Rightarrow> world \<Rightarrow> result \<times> world" where
  "voice_chat e audio history w =
     (case audio of
        None \<Rightarrow> ((None, history, msg_no_input), w)
      | Some a \<Rightarrow>
          (let timestamp = now_hms e
           in case voice_chat_try e a history timestamp w of
                (Inl exn, w') \<Rightarrow> (error_result history (msg_unexpected exn) timestamp, w')
              | (Inr res, w') \<Rightarrow> (res, w')))"

section \<open>The interaction for any value as history\<close>

text \<open>
  \<open>voice_chat\<close> above is the function on the inputs it is written for: the history is a
  list, and the statements before the \<^verbatim>\<open>try\<close> complete. Python checks neither.
  \<open>voice_chat_py\<close> is the same function for any value as history and with the exception
  that the statements before the \<^verbatim>\<open>try\<close> may raise; \<open>Inl\<close> is an exception that leaves
  \<^verbatim>\<open>voice_chat\<close> towards its caller. \<^verbatim>\<open>history + [[...]]\<close> concatenates when \<^verbatim>\<open>history\<close> is a list
  and raises \<^verbatim>\<open>TypeError\<close> for every other value, wherever it is evaluated: in a \<^verbatim>\<open>return\<close> of
  the body, in a handler of the inner \<^verbatim>\<open>try\<close> statements, and in the outer handler.
\<close>

fun type_name :: "pyval \<Rightarrow> string" where
  "type_name PNone = ''NoneType''"
| "type_name (PBool b) = ''bool''"
| "type_name (PInt i) = ''int''"
| "type_name (PStr s) = ''str''"
| "type_name (PList vs) = ''list''"
| "type_name (PDict items) = ''dict''"

text \<open>The text of the \<^verbatim>\<open>TypeError\<close> of \<^verbatim>\<open>v + [...]\<close> for a \<open>v\<close> that is not a list.\<close>

definition concat_error :: "pyval \<Rightarrow> string" where
  "concat_error v =
     (case v of
        PStr s \<Rightarrow> ''can only concatenate str (not '' @ [CHR 0x22] @ ''list'' @ [CHR 0x22]
                    @ '') to str''
      | _ \<Rightarrow> ''unsupported operand type(s) for +: '' @ [CHR 0x27] @ type_name v @ [CHR 0x27]
               @ '' and '' @ [CHR 0x27] @ ''list'' @ [CHR 0x27])"

text \<open>\<^verbatim>\<open>history + [turn]\<close>.\<close>

fun add_turn :: "pyval \<Rightarrow> pyval \<Rightarrow> string + pyval" where
  "add_turn (PList turns) turn = Inr (PList (turns @ [turn]))"
| "add_turn v turn = Inl (concat_error v)"

type_synonym py_result = "path option \<times> pyval \<times> string"

text \<open>\<^verbatim>\<open>return None, history + [[error_msg, None, timestamp]], error_msg\<close>: the triple, or the
  exception of the concatenation.\<close>

definition error_return :: "pyval \<Rightarrow> string \<Rightarrow> string \<Rightarrow> string + py_result" where
  "error_return history error_msg timestamp =
     (case add_turn history (error_turn error_msg timestamp) of
        Inl exn \<Rightarrow> Inl exn
      | Inr new_history \<Rightarrow> Inr (None, new_history, error_msg))"

text \<open>Lines 100 to 148. The test of the output file (line 121) and its \<^verbatim>\<open>return\<close> (line 124)
  are inside the \<^verbatim>\<open>try\<close> of the write: an exception of that \<^verbatim>\<open>return\<close> is caught at line 126 and
  the handler returns at line 129. Every other \<open>Inl\<close> goes to the outer handler.\<close>

definition handle_response_py ::
    "env \<Rightarrow> response \<Rightarrow> pyval \<Rightarrow> string \<Rightarrow> world \<Rightarrow> (string + py_result) \<times> world" where
  "handle_response_py e r history timestamp w =
     (if status_code r = 200 then
        (if content r = [] then (error_return history msg_empty_response timestamp, w)
         else
           (case write_file (out_fault e) (output_audio_path e) (content r) w of
              (Some exn, w1) \<Rightarrow> (error_return history (msg_output_failed exn) timestamp, w1)
            | (None, w1) \<Rightarrow>
                (if \<not> os_path_exists w1 (output_audio_path e)
                    \<or> os_path_getsize w1 (output_audio_path e) = 0
                 then
                   (case error_return history msg_invalid_output timestamp of
                      Inr res \<Rightarrow> (Inr res, w1)
                    | Inl exn \<Rightarrow> (error_return history (msg_output_failed exn) timestamp, w1))
                 else
                   (case add_turn history (success_turn timestamp) of
                      Inl exn \<Rightarrow> (Inl exn, w1)
                    | Inr new_history \<Rightarrow>
                        (Inr (Some (output_audio_path e), new_history, msg_success),
                         save_chat_history e new_history w1)))))
      else (error_return history (msg_server_error (error_detail e r)) timestamp, w))"

text \<open>The body of the outer \<^verbatim>\<open>try\<close> (lines 52 to 148).\<close>

definition voice_chat_try_py ::
    "env \<Rightarrow> audio \<Rightarrow> pyval \<Rightarrow> string \<Rightarrow> world \<Rightarrow> (string + py_result) \<times> world" where
  "voice_chat_try_py e audio history timestamp w =
     (case audio of (sr, audio_data) \<Rightarrow>
        (case write_file (wav_fault e) (audio_path e) (wav_encode e sr audio_data) w of
           (Some exn, w1) \<Rightarrow> (Inl exn, w1)
         | (None, w1) \<Rightarrow>
             (if \<not> os_path_exists w1 (audio_path e)
              then (Inr (None, history, msg_save_failed), w1)
              else
                (case send_request e w1 of
                   (Inl TimeoutExc, w2) \<Rightarrow> (error_return history msg_timeout timestamp, w2)
                 | (Inl ConnectionErrorExc, w2) \<Rightarrow>
                     (error_return history msg_connection timestamp, w2)
                 | (Inl (OtherExc exn), w2) \<Rightarrow>
                     (error_return history (msg_request_error exn) timestamp, w2)
                 | (Inr r, w2) \<Rightarrow> handle_response_py e r history timestamp w2))))"

text \<open>\<^verbatim>\<open>voice_chat\<close> (lines 40 to 153): the test for missing audio, the statements before the
  \<^verbatim>\<open>try\<close>, then the \<^verbatim>\<open>try\<close> with its handler, whose \<^verbatim>\<open>return\<close> (line 153) concatenates again.\<close>

definition voice_chat_py ::
    "env \<Rightarrow> audio option \<Rightarrow> pyval \<Rightarrow> world \<Rightarrow> (string + py_result) \<times> world" where
  "voice_chat_py e audio history w =
     (case audio of
        None \<Rightarrow> (Inr (None, history, msg_no_input), w)
      | Some a \<Rightarrow>
          (case start_fault e of
             Some exn \<Rightarrow> (Inl exn, w)
           | None \<Rightarrow>
               (let timestamp = now_hms e
                in case voice_chat_try_py e a history timestamp w of
                     (Inl exn, w') \<Rightarrow> (error_return history (msg_unexpected exn) timestamp, w')
                   | (Inr res, w') \<Rightarrow> (Inr res, w'))))"

section \<open>A sample environment\<close>

text \<open>
  The theorems below hold for every environment. The instances that illustrate them use the
  environment of this section: a printer and a parser for JSON (the layout of
  \<^verbatim>\<open>json.dump(..., indent=2)\<close>: one item per line, two more spaces per level), a file system
  without faults and a transport that answers every request with status 200 and a body.
\<close>

fun escape_char :: "char \<Rightarrow> string" where
  "escape_char c =
     (if c = CHR 0x22 then [CHR 0x5C, CHR 0x22]
      else if c = CHR 0x5C then [CHR 0x5C, CHR 0x5C]
      else if c = CHR 0x0A then [CHR 0x5C, CHR ''n'']
      else if c = CHR 0x0D then [CHR 0x5C, CHR ''r'']
      else if c = CHR 0x09 then [CHR 0x5C, CHR ''t'']
      else [c])"

definition quote :: "string \<Rightarrow> string" where
  "quote s = CHR 0x22 # concat (map escape_char s) @ [CHR 0x22]"

fun sep_by :: "string \<Rightarrow> string list \<Rightarrow> string" where
  "sep_by s [] = []"
| "sep_by s [x] = x"
| "sep_by s (x # y # ys) = x @ s @ sep_by s (y # ys)"

definition newline_indent :: "nat \<Rightarrow> string" where
  "newline_indent k = CHR 0x0A # replicate k CHR '' ''"

fun json_text :: "nat \<Rightarrow> pyval \<Rightarrow> string" where
  "json_text k PNone = ''null''"
| "json_text k (PBool b) = (if b then ''true'' else ''false'')"
| "json_text k (PInt i) = str_int i"
| "json_text k (PStr s) = quote s"
| "json_text k (PList vs) =
     (if vs = [] then ''[]''
      else ''['' @ newline_indent (k + 2)
             @ sep_by ('','' @ newline_indent (k + 2)) (map (json_text (k + 2)) vs)
             @ newline_indent k @ '']'')"
| "json_text k (PDict items) =
     (if items = [] then ''{}''
      else ''{'' @ newline_indent (k + 2)
             @ sep_by ('','' @ newline_indent (k + 2))
                 (map (\<lambda>(key, v). quote key @ '': '' @ json_text (k + 2) v) items)
             @ newline_indent k @ ''}'')"

fun skip_ws :: "string \<Rightarrow> string" where
  "skip_ws [] = []"
| "skip_ws (c # cs) =
     (if c = CHR '' '' \<or> c = CHR 0x0A \<or> c = CHR 0x0D \<or> c = CHR 0x09 then skip_ws cs
      else c # cs)"

definition strip_prefix :: "string \<Rightarrow> string \<Rightarrow> string option" where
  "strip_prefix p s = (if take (length p) s = p then Some (drop (length p) s) else None)"

definition unescape_char :: "char \<Rightarrow> char option" where
  "unescape_char c =
     (if c = CHR 0x22 \<or> c = CHR 0x5C \<or> c = CHR ''/'' then Some c
      else if c = CHR ''n'' then Some (CHR 0x0A)
      else if c = CHR ''r'' then Some (CHR 0x0D)
      else if c = CHR ''t'' then Some (CHR 0x09)
      else None)"

text \<open>The rest of a string literal, after its opening quote; \<open>acc\<close> is what was read, reversed.\<close>

fun parse_string :: "string \<Rightarrow> string \<Rightarrow> (string \<times> string) option" where
  "parse_string acc [] = None"
| "parse_string acc [c] = (if c = CHR 0x22 then Some (rev acc, []) else None)"
| "parse_string acc (c # d # ds) =
     (if c = CHR 0x22 then Some (rev acc, d # ds)
      else if c = CHR 0x5C then
        (case unescape_char d of None \<Rightarrow> None | Some x \<Rightarrow> parse_string (x # acc) ds)
      else parse_string (c # acc) (d # ds))"

definition is_digit :: "char \<Rightarrow> bool" where
  "is_digit c = (c \<in> set ''0123456789'')"

definition digit_val :: "char \<Rightarrow> nat" where
  "digit_val c = of_char c - 48"

fun parse_nat :: "nat \<Rightarrow> string \<Rightarrow> nat \<times> string" where
  "parse_nat acc [] = (acc, [])"
| "parse_nat acc (c # cs) =
     (if is_digit c then parse_nat (10 * acc + digit_val c) cs else (acc, c # cs))"

text \<open>The parser, by recursive descent; the first argument bounds the depth of the calls
  (the length of the text is always enough).\<close>

fun parse_value :: "nat \<Rightarrow> string \<Rightarrow> (pyval \<times> string) option"
  and parse_elements :: "nat \<Rightarrow> pyval list \<Rightarrow> string \<Rightarrow> (pyval list \<times> string) option"
  and parse_members ::
    "nat \<Rightarrow> (string \<times> pyval) list \<Rightarrow> string \<Rightarrow> ((string \<times> pyval) list \<times> string) option"
where
  "parse_value 0 s = None"
| "parse_value (Suc n) s =
     (case skip_ws s of
        [] \<Rightarrow> None
      | c # cs \<Rightarrow>
          (if c = CHR ''n'' then map_option (Pair PNone) (strip_prefix ''ull'' cs)
           else if c = CHR ''t'' then map_option (Pair (PBool True)) (strip_prefix ''rue'' cs)
           else if c = CHR ''f'' then map_option (Pair (PBool False)) (strip_prefix ''alse'' cs)
           else if c = CHR 0x22 then map_option (\<lambda>(x, r). (PStr x, r)) (parse_string [] cs)
           else if c = CHR ''-'' then
             (case cs of
                [] \<Rightarrow> None
              | d # ds \<Rightarrow>
                  (if is_digit d
                   then (case parse_nat 0 cs of (m, r) \<Rightarrow> Some (PInt (- int m), r))
                   else None))
           else if is_digit c then
             (case parse_nat 0 (c # cs) of (m, r) \<Rightarrow> Some (PInt (int m), r))
           else if c = CHR ''['' then
             (case skip_ws cs of
                [] \<Rightarrow> None
              | d # ds \<Rightarrow>
                  (if d = CHR '']'' then Some (PList [], ds)
                   else map_option (\<lambda>(xs, r). (PList xs, r)) (parse_elements n [] cs)))
           else if c = CHR ''{'' then
             (case skip_ws cs of
                [] \<Rightarrow> None
              | d # ds \<Rightarrow>
                  (if d = CHR ''}'' then Some (PDict [], ds)
                   else map_option (\<lambda>(xs, r). (PDict xs, r)) (parse_members n [] cs)))
           else None))"
| "parse_elements 0 acc s = None"
| "parse_elements (Suc n) acc s =
     (case parse_value n s of
        None \<Rightarrow> None
      | Some (v, r) \<Rightarrow>
          (case skip_ws r of
             [] \<Rightarrow> None
           | c # cs \<Rightarrow>
               (if c = CHR '','' then parse_elements n (v # acc) cs
                else if c = CHR '']'' then Some (rev (v # acc), cs)
                else None)))"
| "parse_members 0 acc s = None"
| "parse_members (Suc n) acc s =
     (case skip_ws s of
        [] \<Rightarrow> None
      | q # s1 \<Rightarrow>
          (if q \<noteq> CHR 0x22 then None
           else
             (case parse_string [] s1 of
                None \<Rightarrow> None
              | Some (key, s2) \<Rightarrow>
                  (case skip_ws s2 of
                     [] \<Rightarrow> None
                   | c # s3 \<Rightarrow>
                       (if c \<noteq> CHR '':'' then None
                        else
                          (case parse_value n s3 of
                             None \<Rightarrow> None
                           | Some (v, r) \<Rightarrow>
                               (case skip_ws r of
                                  [] \<Rightarrow> None
                                | c # cs \<Rightarrow>
                                    (if c = CHR '','' then parse_members n ((key, v) # acc) cs
                                     else if c = CHR ''}'' then Some (rev ((key, v) # acc), cs)
                                     else None))))))))"

definition json_parse :: "string \<Rightarrow> pyval option" where
  "json_parse s =
     (case parse_value (Suc (length s)) s of
        None \<Rightarrow> None
      | Some (v, r) \<Rightarrow> (if skip_ws r = [] then Some v else None))"

text \<open>Three notions for the proof that the parser reads back what the printer writes: a text
  that does not go on with a digit, the characters a printed value starts with, and a bound
  on the depth of the calls that parsing a printed value needs.\<close>

definition no_digit_ahead :: "string \<Rightarrow> bool" where
  "no_digit_ahead s = (case s of [] \<Rightarrow> True | c # cs \<Rightarrow> \<not> is_digit c)"

definition value_start :: "char \<Rightarrow> bool" where
  "value_start c = (c \<in> set ''ntf-0123456789[{'' \<or> c = CHR 0x22)"

fun weight :: "pyval \<Rightarrow> nat" where
  "weight PNone = 1"
| "weight (PBool b) = 1"
| "weight (PInt i) = 1"
| "weight (PStr s) = 1"
| "weight (PList vs) = Suc (sum_list (map (\<lambda>v. Suc (weight v)) vs))"
| "weight (PDict items) = Suc (sum_list (map (\<lambda>(key, v). Suc (weight v)) items))"

text \<open>\<^verbatim>\<open>str()\<close> of the values that are not strings.\<close>

fun sample_str :: "pyval \<Rightarrow> string" where
  "sample_str PNone = ''None''"
| "sample_str (PBool b) = (if b then ''True'' else ''False'')"
| "sample_str (PInt i) = str_int i"
| "sample_str (PStr s) = [CHR 0x27] @ s @ [CHR 0x27]"
| "sample_str (PList vs) = ''['' @ sep_by '', '' (map sample_str vs) @ '']''"
| "sample_str (PDict items) =
     ''{'' @ sep_by '', '' (map (\<lambda>(key, v). [CHR 0x27] @ key @ [CHR 0x27] @ '': '' @ sample_str v) items)
       @ ''}''"

definition sample_reply :: response where
  "sample_reply = \<lparr>status_code = 200, content = ''RIFF-reply''\<rparr>"

definition sample_env :: env where
  "sample_env =
     \<lparr>tmpdir = ''/tmp'',
      now_hms = ''10:15:00'',
      time_in = 1717000000,
      time_out = 1717000042,
      wav_encode = (\<lambda>sr audio_data. ''RIFF-input''),
      wav_fault = None,
      open_fault = None,
      requests_post = (\<lambda>url upload timeout. Inr sample_reply),
      out_fault = None,
      save_fault = None,
      load_fault = None,
      remove_fault = None,
      start_fault = None,
      json_loads = json_parse,
      json_dumps = json_text 0,
      response_json = json_parse,
      py_str = sample_str\<rparr>"

definition fresh_world :: world where
  "fresh_world = \<lparr>files = Map.empty, net_calls = 0\<rparr>"

text \<open>The world after the input audio of \<open>sample_env\<close> has been written, and after it has been
  posted.\<close>

definition recorded_world :: world where
  "recorded_world = fresh_world\<lparr>files := [audio_path sample_env \<mapsto> ''RIFF-input'']\<rparr>"

definition posted_world :: world where
  "posted_world = recorded_world\<lparr>net_calls := 1\<rparr>"

text \<open>A world whose history file was cut off in the middle of a write.\<close>

definition corrupt_world :: world where
  "corrupt_world = fresh_world\<lparr>files := [HISTORY_PATH sample_env \<mapsto> ''[[1, 2'']\<rparr>"

text \<open>The sample environment with a transport that gives \<open>x\<close> for every request.\<close>

text \<open>A world whose history file holds a JSON object and no array.\<close>

definition object_world :: world where
  "object_world = fresh_world\<lparr>files := [HISTORY_PATH sample_env \<mapsto> ''{}'']\<rparr>"

definition env_replying :: "post_exn + response \<Rightarrow> env" where
  "env_replying x = sample_env\<lparr>requests_post := \<lambda>url upload timeout. x\<rparr>"

definition empty_reply :: response where
  "empty_reply = \<lparr>status_code = 200, content = []\<rparr>"

definition error_reply :: response where
  "error_reply =
     \<lparr>status_code = 503,
      content = json_text 0 (PDict [(''message'', PStr ''Model belum siap'')])\<rparr>"

definition coded_reply :: response where
  "coded_reply =
     \<lparr>status_code = 500, content = json_text 0 (PDict [(''message'', PInt 42)])\<rparr>"

definition plain_reply :: response where
  "plain_reply = \<lparr>status_code = 502, content = ''Bad Gateway''\<rparr>"

definition sample_audio :: audio where
  "sample_audio = (16000, [0, 1, 0, - 1])"

text \<open>A world whose history file holds one earlier turn.\<close>

definition earlier_turn :: pyval where
  "earlier_turn = success_turn ''09:00:00''"

definition earlier_text :: bytes where
  "earlier_text = json_text 0 (PList [earlier_turn])"

definition earlier_world :: world where
  "earlier_world = fresh_world\<lparr>files := [HISTORY_PATH sample_env \<mapsto> earlier_text]\<rparr>"


section \<open>Facts about files and paths\<close>

lemma HISTORY_PATH_not_output: "HISTORY_PATH e \<noteq> output_audio_path e"
  by (simp add: HISTORY_PATH_def output_audio_path_def path_join_def)

lemma HISTORY_PATH_not_input: "HISTORY_PATH e \<noteq> audio_path e"
  by (simp add: HISTORY_PATH_def audio_path_def audio_filename_def path_join_def)

lemma files_write_file_other:
  "p \<noteq> q \<Longrightarrow> files (snd (write_file f p b w)) q = files w q"
  by (cases "(f, p, b, w)" rule: write_file.cases) auto

lemma write_file_other:
  assumes "write_file f p b w = (x, w')" and "p \<noteq> q"
  shows "files w' q = files w q"
  using files_write_file_other [OF assms(2), of f b w] assms(1) by simp

lemma send_request_files:
  assumes "send_request e w = (x, w')"
  shows "files w' = files w"
  using assms by (auto simp: send_request_def split: sum.splits)


section \<open>The paths through \<open>voice_chat\<close>\<close>

text \<open>Once the input is written and posted, the result is that of \<open>handle_response\<close>.\<close>

lemma voice_chat_response:
  assumes "write_file (wav_fault e) (audio_path e) (wav_encode e sr audio_data) w = (None, w1)"
    and "os_path_exists w1 (audio_path e)"
    and "send_request e w1 = (Inr r, w2)"
  shows "voice_chat e (Some (sr, audio_data)) history w
           = handle_response e r history (now_hms e) w2"
  using assms by (simp add: voice_chat_def voice_chat_try_def Let_def split: prod.splits)


lemma handle_response_error_file:
  assumes "handle_response e r history timestamp w = ((None, hist, msg), w')"
  shows "files w' (HISTORY_PATH e) = files w (HISTORY_PATH e)"
proof (cases "status_code r = 200 \<and> content r \<noteq> []")
  case False
  then show ?thesis
    using assms by (auto simp: handle_response_def error_result_def split: if_splits)
next
  case True
  obtain x w1 where wr: "write_file (out_fault e) (output_audio_path e) (content r) w = (x, w1)"
    by (cases "write_file (out_fault e) (output_audio_path e) (content r) w")
  have keep: "files w1 (HISTORY_PATH e) = files w (HISTORY_PATH e)"
    using write_file_other [OF wr] HISTORY_PATH_not_output [of e] by metis
  have "w' = w1"
    using assms True wr
    by (auto simp: handle_response_def error_result_def Let_def split: if_splits option.splits)
  then show ?thesis using keep by simp
qed

lemma handle_response_saved:
  assumes "handle_response e r history timestamp w = ((Some p, hist, msg), w')"
    and "save_fault e = None"
  shows "files w' (HISTORY_PATH e) = Some (json_dumps e (PList hist))"
  using assms
  by (auto simp: handle_response_def error_result_def Let_def save_chat_history_def
      split: if_splits option.splits prod.splits)

lemma handle_response_shape:
  assumes "handle_response e r history timestamp w = ((out, hist, msg), w')"
  shows "(out = None \<and> hist = history @ [error_turn msg timestamp])
         \<or> (out = Some (output_audio_path e) \<and> hist = history @ [success_turn timestamp]
             \<and> msg = msg_success
             \<and> (\<exists>w1. write_file (out_fault e) (output_audio_path e) (content r) w = (None, w1)))"
  using assms
  by (auto simp: handle_response_def error_result_def Let_def
      split: if_splits option.splits prod.splits)

text \<open>The case analysis of one call, by the \<^verbatim>\<open>return\<close> statement that ends it.\<close>

lemma voice_chat_cases:
  assumes "voice_chat e (Some (sr, audio_data)) history w = (res, w')"
  obtains
    (raised) exn where
      "write_file (wav_fault e) (audio_path e) (wav_encode e sr audio_data) w = (Some exn, w')"
      "res = error_result history (msg_unexpected exn) (now_hms e)"
  | (absent)
      "write_file (wav_fault e) (audio_path e) (wav_encode e sr audio_data) w = (None, w')"
      "\<not> os_path_exists w' (audio_path e)"
      "res = (None, history, msg_save_failed)"
  | (timeout) w1 where
      "write_file (wav_fault e) (audio_path e) (wav_encode e sr audio_data) w = (None, w1)"
      "os_path_exists w1 (audio_path e)"
      "send_request e w1 = (Inl TimeoutExc, w')"
      "res = error_result history msg_timeout (now_hms e)"
  | (connection) w1 where
      "write_file (wav_fault e) (audio_path e) (wav_encode e sr audio_data) w = (None, w1)"
      "os_path_exists w1 (audio_path e)"
      "send_request e w1 = (Inl ConnectionErrorExc, w')"
      "res = error_result history msg_connection (now_hms e)"
  | (other) w1 exn where
      "write_file (wav_fault e) (audio_path e) (wav_encode e sr audio_data) w = (None, w1)"
      "os_path_exists w1 (audio_path e)"
      "send_request e w1 = (Inl (OtherExc exn), w')"
      "res = error_result history (msg_request_error exn) (now_hms e)"
  | (response) w1 w2 r where
      "write_file (wav_fault e) (audio_path e) (wav_encode e sr audio_data) w = (None, w1)"
      "os_path_exists w1 (audio_path e)"
      "send_request e w1 = (Inr r, w2)"
      "handle_response e r history (now_hms e) w2 = (res, w')"
proof -
  obtain x w1 where wr:
    "write_file (wav_fault e) (audio_path e) (wav_encode e sr audio_data) w = (x, w1)"
    by (cases "write_file (wav_fault e) (audio_path e) (wav_encode e sr audio_data) w")
  obtain y w2 where sr: "send_request e w1 = (y, w2)"
    by (cases "send_request e w1")
  show thesis
    using assms wr sr raised absent timeout connection other response
    by (auto simp: voice_chat_def voice_chat_try_def Let_def
        split: option.splits if_splits sum.splits post_exn.splits prod.splits)
qed

text \<open>The input file is absent after a write that raised nothing exactly when it vanished.\<close>

lemma input_absent_iff:
  assumes "write_file (wav_fault e) (audio_path e) b w = (None, w1)"
  shows "\<not> os_path_exists w1 (audio_path e) \<longleftrightarrow> wav_fault e = Some Vanishes"
  using assms
  by (cases "(wav_fault e, audio_path e, b, w)" rule: write_file.cases)
     (auto simp: os_path_exists_def)

lemma raised_not_vanishes:
  assumes "write_file f p b w = (Some exn, w1)"
  shows "f \<noteq> Some Vanishes"
  using assms by (cases "(f, p, b, w)" rule: write_file.cases) auto

text \<open>On a list, and when the statements before the \<^verbatim>\<open>try\<close> complete, \<open>voice_chat_py\<close> is
  \<open>voice_chat\<close>.\<close>

lemma error_return_list:
  "error_return (PList history) error_msg timestamp
     = Inr (None, PList (history @ [error_turn error_msg timestamp]), error_msg)"
  by (simp add: error_return_def)

lemma handle_response_py_list:
  "handle_response_py e r (PList history) timestamp w =
     (case handle_response e r history timestamp w of
        ((out, hist, msg), w') \<Rightarrow> (Inr (out, PList hist, msg), w'))"
  by (auto simp: handle_response_py_def handle_response_def error_return_list error_result_def
      Let_def split: prod.splits option.splits)

lemma voice_chat_try_py_list:
  "voice_chat_try_py e a (PList history) timestamp w =
     (case voice_chat_try e a history timestamp w of
        (Inl exn, w') \<Rightarrow> (Inl exn, w')
      | (Inr (out, hist, msg), w') \<Rightarrow> (Inr (out, PList hist, msg), w'))"
  by (auto simp: voice_chat_try_py_def voice_chat_try_def handle_response_py_list
      error_return_list error_result_def
      split: prod.splits option.splits sum.splits post_exn.splits)

lemma voice_chat_py_list:
  assumes "start_fault e = None"
  shows "voice_chat_py e audio (PList history) w =
     (case voice_chat e audio history w of
        ((out, hist, msg), w') \<Rightarrow> (Inr (out, PList hist, msg), w'))"
  using assms
  by (auto simp: voice_chat_py_def voice_chat_def voice_chat_try_py_list error_return_list
      error_result_def Let_def split: prod.splits option.splits sum.splits)

text \<open>The evaluation of the sample environment.\<close>

lemmas sample_simps =
  voice_chat_def voice_chat_try_def send_request_def handle_response_def error_result_def
  save_chat_history_def load_chat_history_def clear_history_def os_remove_def
  os_path_exists_def os_path_getsize_def Let_def
  sample_env_def env_replying_def fresh_world_def recorded_world_def posted_world_def
  audio_path_def audio_filename_def output_audio_path_def HISTORY_PATH_def path_join_def
  API_URL_def REQUEST_TIMEOUT_def

lemmas sample_py_simps =
  voice_chat_py_def voice_chat_try_py_def handle_response_py_def error_return_def

section \<open>The sample parser reads back what the sample printer writes\<close>

text \<open>
  For every value \<open>v\<close>, parsing the text printed for \<open>v\<close> gives \<open>v\<close>: the hypothesis on the
  JSON library in the theorem on saving and loading holds in the sample environment for
  every history. The proof follows the printer: string literals, numbers, then values by
  induction, with the items of a list and of an object by an inner induction.
\<close>

lemma skip_ws_newline_indent: "skip_ws (newline_indent k @ s) = skip_ws s"
  by (induction k) (simp_all add: newline_indent_def)

lemma parse_string_escape:
  "t \<noteq> [] \<Longrightarrow> parse_string acc (escape_char a @ t) = parse_string (a # acc) t"
  by (cases t) (simp_all add: unescape_char_def)

lemma parse_string_quote:
  "parse_string acc (concat (map escape_char s) @ CHR 0x22 # rest) = Some (rev acc @ s, rest)"
proof (induction s arbitrary: acc)
  case Nil
  show ?case by (cases rest) simp_all
next
  case (Cons a s)
  have "parse_string acc (escape_char a @ (concat (map escape_char s) @ CHR 0x22 # rest))
        = parse_string (a # acc) (concat (map escape_char s) @ CHR 0x22 # rest)"
    by (rule parse_string_escape) simp
  then show ?case
    using Cons [of "a # acc"] by (simp del: escape_char.simps)
qed

lemma below_ten: "n < 10 \<Longrightarrow> n \<in> set [0, 1, 2, 3, 4, 5, 6, 7, 8, 9::nat]"
  by (simp add: numeral_eq_Suc less_Suc_eq)

lemma digit_val_nth: "n < 10 \<Longrightarrow> digit_val (''0123456789'' ! n) = n"
  by (drule below_ten) (auto simp: digit_val_def)

lemma is_digit_nth: "n < 10 \<Longrightarrow> is_digit (''0123456789'' ! n)"
  by (drule below_ten) (auto simp: is_digit_def)

lemma parse_nat_stop: "no_digit_ahead rest \<Longrightarrow> parse_nat acc rest = (acc, rest)"
  by (cases rest) (simp_all add: no_digit_ahead_def)

lemma parse_nat_append:
  "(\<And>c. c \<in> set ds \<Longrightarrow> is_digit c) \<Longrightarrow>
   parse_nat acc (ds @ rest) = parse_nat (foldl (\<lambda>a c. 10 * a + digit_val c) acc ds) rest"
  by (induction ds arbitrary: acc) simp_all

lemma digits_are_digits: "c \<in> set (digits n) \<Longrightarrow> is_digit c"
proof (induction n rule: digits.induct)
  case (1 n)
  then show ?case
    using digits.simps [of n] is_digit_nth [of n] is_digit_nth [of "n mod 10"]
    by (cases "n < 10") auto
qed

lemma digits_value: "foldl (\<lambda>a c. 10 * a + digit_val c) 0 (digits n) = n"
proof (induction n rule: digits.induct)
  case (1 n)
  then show ?case
    using digits.simps [of n] digit_val_nth [of n] digit_val_nth [of "n mod 10"]
    by (cases "n < 10") auto
qed

lemma digits_not_empty: "digits n \<noteq> []"
  using digits.simps [of n] by (cases "n < 10") auto

lemma parse_nat_digits:
  "no_digit_ahead rest \<Longrightarrow> parse_nat 0 (digits n @ rest) = (n, rest)"
  by (simp add: parse_nat_append digits_are_digits digits_value parse_nat_stop)

lemma hd_digits: "is_digit (hd (digits n))"
  using digits_are_digits [of "hd (digits n)" n] digits_not_empty [of n] by simp

lemma sep_by_Cons:
  "sep_by s (x # xs) = (if xs = [] then x else x @ s @ sep_by s xs)"
  by (cases xs) simp_all

lemma parse_value_newline_indent:
  "parse_value n (newline_indent k @ s) = parse_value n s"
  by (cases n) (simp_all add: skip_ws_newline_indent)

lemma no_digit_ahead_simps [simp]:
  "no_digit_ahead []"
  "no_digit_ahead (newline_indent k @ s)"
  "no_digit_ahead (CHR '','' # s)"
  by (simp_all add: no_digit_ahead_def newline_indent_def is_digit_def)

lemma json_text_start: "\<exists>c cs. json_text k v = c # cs \<and> value_start c"
proof (cases v)
  case (PInt i)
  obtain c cs where d: "digits (nat i) = c # cs"
    using digits_not_empty [of "nat i"] by (cases "digits (nat i)") auto
  have "is_digit c" using hd_digits [of "nat i"] d by simp
  then show ?thesis
    using PInt d by (auto simp: str_int_def value_start_def is_digit_def)
qed (auto simp: value_start_def quote_def)

lemma skip_ws_json_text: "skip_ws (json_text k v @ s) = json_text k v @ s"
  using json_text_start [of k v] by (auto simp: value_start_def)

lemma parse_atoms:
  "parse_value (Suc n) (json_text k PNone @ rest) = Some (PNone, rest)"
  "parse_value (Suc n) (json_text k (PBool b) @ rest) = Some (PBool b, rest)"
  "parse_value (Suc n) (json_text k (PStr s) @ rest) = Some (PStr s, rest)"
  by (simp_all add: strip_prefix_def quote_def parse_string_quote)

lemma parse_int:
  assumes "no_digit_ahead rest"
  shows "parse_value (Suc n) (json_text k (PInt i) @ rest) = Some (PInt i, rest)"
proof (cases "i < 0")
  case True
  obtain c cs where d: "digits (nat (- i)) = c # cs"
    using digits_not_empty [of "nat (- i)"] by (cases "digits (nat (- i))") auto
  have c: "is_digit c" using hd_digits [of "nat (- i)"] d by simp
  have "parse_nat 0 (digits (nat (- i)) @ rest) = (nat (- i), rest)"
    using assms by (rule parse_nat_digits)
  then show ?thesis
    using True d c by (simp add: str_int_def)
next
  case False
  obtain c cs where d: "digits (nat i) = c # cs"
    using digits_not_empty [of "nat i"] by (cases "digits (nat i)") auto
  have c: "is_digit c" using hd_digits [of "nat i"] d by simp
  have p: "parse_nat 0 (digits (nat i) @ rest) = (nat i, rest)"
    using assms by (rule parse_nat_digits)
  have "c \<noteq> CHR ''n''" "c \<noteq> CHR ''t''" "c \<noteq> CHR ''f''" "c \<noteq> CHR 0x22" "c \<noteq> CHR ''-''"
    "c \<noteq> CHR '' ''" "c \<noteq> CHR 0x0A" "c \<noteq> CHR 0x0D" "c \<noteq> CHR 0x09"
    using c by (auto simp: is_digit_def)
  then show ?thesis
    using False d c p by (simp add: str_int_def)
qed

lemma skip_ws_close:
  "skip_ws (newline_indent k @ CHR '']'' # rest) = CHR '']'' # rest"
  "skip_ws (newline_indent k @ CHR ''}'' # rest) = CHR ''}'' # rest"
  by (simp_all add: skip_ws_newline_indent)

lemma no_digit_ahead_tail [simp]:
  "no_digit_ahead ((if xs = [] then [] else CHR '','' # t) @ newline_indent k @ u)"
  by simp

lemma parse_elements_text:
  assumes IH: "\<And>x n k rest. x \<in> set xs \<Longrightarrow> weight x \<le> n \<Longrightarrow> no_digit_ahead rest \<Longrightarrow>
                 parse_value n (json_text k x @ rest) = Some (x, rest)"
    and "xs \<noteq> []"
    and "sum_list (map (\<lambda>v. Suc (weight v)) xs) \<le> n"
  shows "parse_elements n acc
           (newline_indent j @ sep_by ('','' @ newline_indent j) (map (json_text j) xs)
              @ newline_indent k @ '']'' @ rest)
         = Some (rev acc @ xs, rest)"
  using assms
proof (induction xs arbitrary: n acc)
  case Nil
  then show ?case by simp
next
  case (Cons x xs)
  obtain m where n: "n = Suc m" using Cons.prems(3) by (cases n) auto
  have wx: "weight x \<le> m" using Cons.prems(3) n by simp
  show ?case
  proof (cases "xs = []")
    case True
    have "parse_value m (json_text j x @ (newline_indent k @ '']'' @ rest))
          = Some (x, newline_indent k @ '']'' @ rest)"
      using Cons.prems(1) [of x m "newline_indent k @ '']'' @ rest" j] wx by simp
    then show ?thesis
      using True n by (simp add: parse_value_newline_indent skip_ws_close)
  next
    case False
    let ?tail = "sep_by ('','' @ newline_indent j) (map (json_text j) xs)
                   @ newline_indent k @ '']'' @ rest"
    have rec: "parse_elements m (x # acc) (newline_indent j @ ?tail) = Some (rev (x # acc) @ xs, rest)"
      using Cons.IH [of m "x # acc"] Cons.prems(1) False Cons.prems(3) n by simp
    have "parse_value m (json_text j x @ ('','' @ newline_indent j @ ?tail))
          = Some (x, '','' @ newline_indent j @ ?tail)"
      using Cons.prems(1) [of x m "'','' @ newline_indent j @ ?tail" j] wx by simp
    then show ?thesis
      using False n rec by (simp add: parse_value_newline_indent sep_by_Cons)
  qed
qed

lemma parse_members_text:
  assumes IH: "\<And>key x n k rest. (key, x) \<in> set items \<Longrightarrow> weight x \<le> n \<Longrightarrow> no_digit_ahead rest \<Longrightarrow>
                 parse_value n (json_text k x @ rest) = Some (x, rest)"
    and "items \<noteq> []"
    and "sum_list (map (\<lambda>(key, v). Suc (weight v)) items) \<le> n"
  shows "parse_members n acc
           (newline_indent j
              @ sep_by ('','' @ newline_indent j)
                  (map (\<lambda>(key, v). quote key @ '': '' @ json_text j v) items)
              @ newline_indent k @ ''}'' @ rest)
         = Some (rev acc @ items, rest)"
  using assms
proof (induction items arbitrary: n acc)
  case Nil
  then show ?case by simp
next
  case (Cons item items)
  obtain key x where item: "item = (key, x)" by (cases item)
  obtain m where n: "n = Suc m" using Cons.prems(3) item by (cases n) auto
  have wx: "weight x \<le> m" using Cons.prems(3) n item by simp
  have key: "\<And>t. parse_string [] (concat (map escape_char key) @ CHR 0x22 # t) = Some (key, t)"
    using parse_string_quote [of "[]" key] by simp
  have sp: "\<And>t. parse_value m (CHR '' '' # t) = parse_value m t"
    by (cases m) simp_all
  show ?case
  proof (cases "items = []")
    case True
    have "parse_value m (json_text j x @ (newline_indent k @ ''}'' @ rest))
          = Some (x, newline_indent k @ ''}'' @ rest)"
      using Cons.prems(1) [of key x m "newline_indent k @ ''}'' @ rest" j] wx item by simp
    then show ?thesis
      using True n item key sp
      by (simp add: skip_ws_newline_indent skip_ws_close quote_def)
  next
    case False
    let ?tail = "sep_by ('','' @ newline_indent j)
                   (map (\<lambda>(key, v). quote key @ '': '' @ json_text j v) items)
                   @ newline_indent k @ ''}'' @ rest"
    have later: "\<And>key x n k rest. (key, x) \<in> set items \<Longrightarrow> weight x \<le> n \<Longrightarrow>
                   no_digit_ahead rest \<Longrightarrow> parse_value n (json_text k x @ rest) = Some (x, rest)"
      using Cons.prems(1) by (meson list.set_intros(2))
    have fuel: "sum_list (map (\<lambda>(key, v). Suc (weight v)) items) \<le> m"
      using Cons.prems(3) n item by simp
    have rec: "parse_members m (item # acc) (newline_indent j @ ?tail)
                 = Some (rev (item # acc) @ items, rest)"
      using Cons.IH [OF later False fuel] by simp
    have "parse_value m (json_text j x @ ('','' @ newline_indent j @ ?tail))
          = Some (x, '','' @ newline_indent j @ ?tail)"
      using Cons.prems(1) [of key x m "'','' @ newline_indent j @ ?tail" j] wx item by simp
    then show ?thesis
      using False n item rec key sp
      by (simp add: skip_ws_newline_indent sep_by_Cons quote_def)
  qed
qed

lemma parse_value_json_text:
  "weight v \<le> n \<Longrightarrow> no_digit_ahead rest \<Longrightarrow>
   parse_value n (json_text k v @ rest) = Some (v, rest)"
proof (induction v arbitrary: n k rest)
  case PNone
  then show ?case by (cases n) (simp_all add: parse_atoms del: parse_value.simps json_text.simps)
next
  case (PBool b)
  then show ?case by (cases n) (simp_all add: parse_atoms del: parse_value.simps json_text.simps)
next
  case (PInt i)
  then show ?case by (cases n) (simp_all add: parse_int del: parse_value.simps json_text.simps)
next
  case (PStr s)
  then show ?case by (cases n) (simp_all add: parse_atoms del: parse_value.simps json_text.simps)
next
  case (PList vs)
  obtain m where n: "n = Suc m" using PList.prems(1) by (cases n) auto
  show ?case
  proof (cases "vs = []")
    case True
    then show ?thesis using n by (simp add: is_digit_def)
  next
    case False
    then obtain x xs where vs: "vs = x # xs" by (cases vs) auto
    have el: "parse_elements m []
           (newline_indent (k + 2)
              @ sep_by ('','' @ newline_indent (k + 2)) (map (json_text (k + 2)) vs)
              @ newline_indent k @ '']'' @ rest)
         = Some (rev [] @ vs, rest)"
      using PList.IH PList.prems(1) False n
      by (intro parse_elements_text) simp_all
    have st: "skip_ws (json_text (k + 2) x @ t) = json_text (k + 2) x @ t" for t
      by (rule skip_ws_json_text)
    obtain c cs where c: "json_text (k + 2) x = c # cs" and "value_start c"
      using json_text_start [of "k + 2" x] by blast
    then have ne: "c \<noteq> CHR '']''"
      by (auto simp: value_start_def)
    have sk: "skip_ws (newline_indent (k + 2)
              @ sep_by ('','' @ newline_indent (k + 2)) (map (json_text (k + 2)) vs)
              @ newline_indent k @ '']'' @ rest)
              = c # cs @ (if xs = [] then [] else '','' @ newline_indent (k + 2)
                    @ sep_by ('','' @ newline_indent (k + 2)) (map (json_text (k + 2)) xs))
                  @ newline_indent k @ '']'' @ rest"
      using st c vs by (simp add: skip_ws_newline_indent sep_by_Cons del: json_text.simps)
    show ?thesis
      using False n el sk ne by (simp add: is_digit_def del: parse_elements.simps)
  qed
next
  case (PDict items)
  obtain m where n: "n = Suc m" using PDict.prems(1) by (cases n) auto
  show ?case
  proof (cases "items = []")
    case True
    then show ?thesis using n by (simp add: is_digit_def)
  next
    case False
    then obtain key x xs where items: "items = (key, x) # xs" by (cases items) auto
    have IH: "\<And>key x n k rest. (key, x) \<in> set items \<Longrightarrow> weight x \<le> n \<Longrightarrow> no_digit_ahead rest \<Longrightarrow>
                 parse_value n (json_text k x @ rest) = Some (x, rest)"
      using PDict.IH by (metis snds.intros snd_conv)
    have el: "parse_members m []
           (newline_indent (k + 2)
              @ sep_by ('','' @ newline_indent (k + 2))
                  (map (\<lambda>(key, v). quote key @ '': '' @ json_text (k + 2) v) items)
              @ newline_indent k @ ''}'' @ rest)
         = Some (rev [] @ items, rest)"
      using IH PDict.prems(1) False n
      by (intro parse_members_text) simp_all
    have sk: "\<exists>t. skip_ws (newline_indent (k + 2)
              @ sep_by ('','' @ newline_indent (k + 2))
                  (map (\<lambda>(key, v). quote key @ '': '' @ json_text (k + 2) v) items)
              @ newline_indent k @ ''}'' @ rest)
              = CHR 0x22 # t"
      using items by (simp add: skip_ws_newline_indent sep_by_Cons quote_def del: json_text.simps)
    show ?thesis
      using False n el sk by (auto simp add: is_digit_def simp del: parse_members.simps)
  qed
qed

lemma length_sep_by:
  "sum_list (map length ys) + (length ys - 1) * length s \<le> length (sep_by s ys)"
  by (induction s ys rule: sep_by.induct) simp_all

lemma sum_list_Suc: "sum_list (map (\<lambda>x. Suc (g x)) xs) = length xs + sum_list (map g xs)"
  by (induction xs) simp_all

lemma length_block:
  assumes "\<And>x. x \<in> set xs \<Longrightarrow> g x \<le> length (f x)" and "xs \<noteq> []"
  shows "length xs + sum_list (map g xs) \<le> Suc (length (sep_by (c # s) (map f xs)))"
proof -
  have "sum_list (map g xs) \<le> sum_list (map (\<lambda>x. length (f x)) xs)"
    using assms(1) by (intro sum_list_mono) auto
  moreover have "sum_list (map (\<lambda>x. length (f x)) xs) + (length xs - 1) * length (c # s)
                   \<le> length (sep_by (c # s) (map f xs))"
    using length_sep_by [of "map f xs" "c # s"] by (simp add: comp_def)
  moreover have "length xs - 1 \<le> (length xs - 1) * length (c # s)"
    by simp
  moreover have "1 \<le> length xs"
    using assms(2) by (cases xs) simp_all
  ultimately show ?thesis by linarith
qed

lemma weight_le_length: "weight v \<le> length (json_text k v)"
proof (induction v arbitrary: k)
  case (PInt i)
  have "1 \<le> length (digits n)" for n
    using digits_not_empty [of n] by (cases "digits n") simp_all
  then show ?case
    by (simp add: str_int_def Suc_le_eq)
next
  case (PList vs)
  show ?case
  proof (cases "vs = []")
    case False
    then show ?thesis
      using length_block [of vs weight "json_text (k + 2)" "CHR '',''" "newline_indent (k + 2)"]
        PList.IH
      by (simp add: sum_list_Suc)
  qed simp
next
  case (PDict items)
  show ?case
  proof (cases "items = []")
    case False
    have "weight (snd x) \<le> length (case x of (key, v) \<Rightarrow> quote key @ '': '' @ json_text (k + 2) v)"
      if "x \<in> set items" for x
      using PDict.IH [of x "snd x" "k + 2"] that
      by (cases x) (simp add: trans_le_add2)
    then have "length items + sum_list (map (\<lambda>x. weight (snd x)) items)
        \<le> Suc (length (sep_by (CHR '','' # newline_indent (k + 2))
            (map (\<lambda>(key, v). quote key @ '': '' @ json_text (k + 2) v) items)))"
      using False by (intro length_block) auto
    moreover have "sum_list (map (\<lambda>(key, v). Suc (weight v)) items)
                     = length items + sum_list (map (\<lambda>x. weight (snd x)) items)"
      by (induction items) auto
    ultimately show ?thesis
      using False by simp
  qed simp
qed (simp_all add: quote_def)

lemma json_parse_json_text: "json_parse (json_text k v) = Some v"
  using parse_value_json_text [of v "Suc (length (json_text k v))" "[]" k] weight_le_length [of v k]
  by (simp add: json_parse_def del: parse_value.simps)

lemma sample_env_round_trip:
  "json_loads sample_env (json_dumps sample_env v) = Some v"
  by (simp add: sample_env_def json_parse_json_text del: json_text.simps)

section \<open>The claims\<close>

text \<open>
  C8. Called with no captured audio, \<open>voice_chat\<close> returns no output path, the history it
  was given and the NoInput message, and the world is the one it started from: no file was
  written and no request was issued.
\<close>

theorem voice_chat_no_input:
  "voice_chat e None history w = ((None, history, msg_no_input), w)"
  by (simp add: voice_chat_def)

text \<open>
  C7. When the history file is missing, or holds a text that the JSON parser rejects (or
  cannot be opened and read), \<open>load_chat_history\<close> returns the empty list: both the
  file-absent path and the exception handler of the source are branches that return it, and
  no branch raises.
\<close>

theorem load_missing_or_corrupt:
  assumes "files w (HISTORY_PATH e) = None
           \<or> (\<exists>text. files w (HISTORY_PATH e) = Some text \<and> json_loads e text = None)
           \<or> load_fault e \<noteq> None"
  shows "load_chat_history e w = PList []"
  using assms
  by (cases "load_fault e") (auto simp: load_chat_history_def os_path_exists_def)

theorem load_missing_or_corrupt_witness:
  "files fresh_world (HISTORY_PATH sample_env) = None
   \<and> load_chat_history sample_env fresh_world = PList []
   \<and> files corrupt_world (HISTORY_PATH sample_env) = Some ''[[1, 2''
   \<and> json_loads sample_env ''[[1, 2'' = None
   \<and> load_chat_history sample_env corrupt_world = PList []"
proof -
  have missing: "files fresh_world (HISTORY_PATH sample_env) = None"
    by (simp add: fresh_world_def)
  have corrupt: "json_loads sample_env ''[[1, 2'' = None"
    unfolding sample_env_def by code_simp
  have held: "files corrupt_world (HISTORY_PATH sample_env) = Some ''[[1, 2''"
    by (simp add: corrupt_world_def)
  show ?thesis
    using missing corrupt held
      load_missing_or_corrupt [of fresh_world sample_env]
      load_missing_or_corrupt [of corrupt_world sample_env]
    by blast
qed

text \<open>
  C9. Whenever \<open>clear_history\<close> returns, it returns the empty history, the history file does
  not exist afterwards, whether or not it existed before, and \<open>load_chat_history\<close> then
  returns the empty list. It returns whenever the file was absent or \<^verbatim>\<open>os.remove\<close> does not
  raise; an exception of \<^verbatim>\<open>os.remove\<close> leaves \<open>clear_history\<close> uncaught, with the file as it was.
\<close>

theorem clear_then_load:
  "(clear_history e w = (Inr r, w')
      \<longrightarrow> r = ([], msg_cleared) \<and> files w' (HISTORY_PATH e) = None
          \<and> load_chat_history e w' = PList [])
   \<and> (files w (HISTORY_PATH e) = None \<or> remove_fault e = None
      \<longrightarrow> (\<exists>w1. clear_history e w = (Inr ([], msg_cleared), w1)))
   \<and> (files w (HISTORY_PATH e) \<noteq> None \<and> remove_fault e = Some exn
      \<longrightarrow> clear_history e w = (Inl exn, w))"
  by (cases "remove_fault e")
     (auto simp: clear_history_def os_remove_def load_chat_history_def os_path_exists_def
       split: if_splits)

theorem clear_then_load_witness:
  "files earlier_world (HISTORY_PATH sample_env) = Some earlier_text
   \<and> clear_history sample_env earlier_world = (Inr ([], msg_cleared), fresh_world)
   \<and> files fresh_world (HISTORY_PATH sample_env) = None
   \<and> load_chat_history sample_env fresh_world = PList []
   \<and> clear_history sample_env fresh_world = (Inr ([], msg_cleared), fresh_world)"
proof -
  have held: "files earlier_world (HISTORY_PATH sample_env) = Some earlier_text"
    by (simp add: earlier_world_def)
  have c1: "clear_history sample_env earlier_world = (Inr ([], msg_cleared), fresh_world)"
    by (simp add: clear_history_def os_remove_def os_path_exists_def earlier_world_def
        fresh_world_def sample_env_def)
  have c2: "clear_history sample_env fresh_world = (Inr ([], msg_cleared), fresh_world)"
    by (simp add: clear_history_def os_path_exists_def fresh_world_def)
  show ?thesis
    using clear_then_load [of sample_env earlier_world "([], msg_cleared)" fresh_world] held c1 c2
    by simp
qed

text \<open>
  C4. When the transport answers the posted input with status 200 and an empty body,
  \<open>voice_chat\<close> returns the EmptyResponse error: no output path, the history with one error
  turn, and nothing written after the request.
\<close>

theorem empty_body_is_error:
  assumes "write_file (wav_fault e) (audio_path e) (wav_encode e sr audio_data) w = (None, w1)"
    and "os_path_exists w1 (audio_path e)"
    and "send_request e w1 = (Inr r, w2)"
    and "status_code r = 200"
    and "content r = []"
  shows "voice_chat e (Some (sr, audio_data)) history w =
           ((None, history @ [error_turn msg_empty_response (now_hms e)], msg_empty_response),
            w2)"
  using assms(4,5) voice_chat_response [OF assms(1-3)]
  by (simp add: handle_response_def error_result_def)

theorem empty_body_is_error_witness:
  "write_file (wav_fault (env_replying (Inr empty_reply))) (audio_path sample_env)
       ''RIFF-input'' fresh_world = (None, recorded_world)
   \<and> os_path_exists recorded_world (audio_path sample_env)
   \<and> send_request (env_replying (Inr empty_reply)) recorded_world
       = (Inr empty_reply, posted_world)
   \<and> status_code empty_reply = 200
   \<and> content empty_reply = []
   \<and> voice_chat (env_replying (Inr empty_reply)) (Some sample_audio) [] fresh_world
       = ((None, [error_turn msg_empty_response ''10:15:00''], msg_empty_response),
          posted_world)"
proof -
  let ?e = "env_replying (Inr empty_reply)"
  have h1: "write_file (wav_fault ?e) (audio_path ?e) (wav_encode ?e 16000 [0, 1, 0, - 1])
              fresh_world = (None, recorded_world)"
    by (simp add: sample_simps)
  have h2: "os_path_exists recorded_world (audio_path ?e)"
    by (simp add: sample_simps)
  have h3: "send_request ?e recorded_world = (Inr empty_reply, posted_world)"
    by (simp add: sample_simps)
  have h4: "status_code empty_reply = 200" and h5: "content empty_reply = []"
    by (simp_all add: empty_reply_def)
  have "voice_chat ?e (Some (16000, [0, 1, 0, - 1])) [] fresh_world
       = ((None, [] @ [error_turn msg_empty_response (now_hms ?e)], msg_empty_response),
          posted_world)"
    by (rule empty_body_is_error [OF h1 h2 h3 h4 h5])
  then show ?thesis
    using h1 h2 h3 h4 h5 by (simp add: sample_simps sample_audio_def)
qed




text \<open>
  C6. When the transport answers the posted input with a status other than 200,
  \<open>voice_chat\<close> returns the ServerError: no output path, and one error turn whose label is
  the returned text. That text is the warning sign and \<^verbatim>\<open> Server Error: \<close> followed by the
  detail. When the body is not empty and parses to an object with a \<^verbatim>\<open>message\<close> item, the
  detail is that message itself if it is a string, and \<^verbatim>\<open>str()\<close> of it if it is another value.
  In every other case the detail is \<^verbatim>\<open>Kode status: \<close> followed by the status code in decimal.
\<close>

theorem server_error_detail:
  assumes "write_file (wav_fault e) (audio_path e) (wav_encode e sr audio_data) w = (None, w1)"
    and "os_path_exists w1 (audio_path e)"
    and "send_request e w1 = (Inr r, w2)"
    and "status_code r \<noteq> 200"
  shows "(content r \<noteq> [] \<and> response_json e (content r) = Some (PDict items)
            \<and> map_of items ''message'' = Some (PStr s)
          \<longrightarrow> voice_chat e (Some (sr, audio_data)) history w =
                ((None,
                  history @ [PList [PStr (warning_sign @ '' Server Error: '' @ s), PNone,
                                    PStr (now_hms e)]],
                  warning_sign @ '' Server Error: '' @ s), w2))
         \<and> (content r \<noteq> [] \<and> response_json e (content r) = Some (PDict items)
            \<and> map_of items ''message'' = Some v \<and> (\<forall>s. v \<noteq> PStr s)
          \<longrightarrow> voice_chat e (Some (sr, audio_data)) history w =
                ((None,
                  history @ [PList [PStr (warning_sign @ '' Server Error: '' @ py_str e v), PNone,
                                    PStr (now_hms e)]],
                  warning_sign @ '' Server Error: '' @ py_str e v), w2))
         \<and> (\<not> (\<exists>items v. content r \<noteq> [] \<and> response_json e (content r) = Some (PDict items)
                   \<and> map_of items ''message'' = Some v)
          \<longrightarrow> voice_chat e (Some (sr, audio_data)) history w =
                ((None,
                  history @ [PList [PStr (warning_sign @ '' Server Error: Kode status: ''
                                            @ str_int (status_code r)), PNone,
                                    PStr (now_hms e)]],
                  warning_sign @ '' Server Error: Kode status: '' @ str_int (status_code r)),
                 w2))"
proof -
  have res: "voice_chat e (Some (sr, audio_data)) history w =
           ((None, history @ [PList [PStr (warning_sign @ '' Server Error: '' @ error_detail e r),
                                     PNone, PStr (now_hms e)]],
             warning_sign @ '' Server Error: '' @ error_detail e r), w2)"
    using assms(4) voice_chat_response [OF assms(1-3)]
    by (simp add: handle_response_def error_result_def error_turn_def msg_server_error_def)
  have str_case: "error_detail e r = s"
    if "content r \<noteq> []" "response_json e (content r) = Some (PDict items)"
      "map_of items ''message'' = Some (PStr s)"
    using that by (simp add: error_detail_def format_value_def)
  have val_case: "error_detail e r = py_str e v"
    if "content r \<noteq> []" "response_json e (content r) = Some (PDict items)"
      "map_of items ''message'' = Some v" "\<forall>s. v \<noteq> PStr s"
    using that by (cases v) (simp_all add: error_detail_def format_value_def)
  have code_case: "error_detail e r = ''Kode status: '' @ str_int (status_code r)"
    if "\<not> (\<exists>items v. content r \<noteq> [] \<and> response_json e (content r) = Some (PDict items)
              \<and> map_of items ''message'' = Some v)"
    using that
    by (auto simp: error_detail_def status_text_def split: option.splits pyval.splits)
  show ?thesis
    using res str_case val_case code_case by auto
qed

theorem server_error_detail_witness:
  "send_request (env_replying (Inr error_reply)) recorded_world = (Inr error_reply, posted_world)
   \<and> status_code error_reply = 503
   \<and> response_json (env_replying (Inr error_reply)) (content error_reply)
       = Some (PDict [(''message'', PStr ''Model belum siap'')])
   \<and> voice_chat (env_replying (Inr error_reply)) (Some sample_audio) [] fresh_world
       = ((None,
           [PList [PStr ([CHR 0xE2, CHR 0x9A, CHR 0xA0, CHR 0xEF, CHR 0xB8, CHR 0x8F]
                           @ '' Server Error: Model belum siap''),
                   PNone, PStr ''10:15:00'']],
           [CHR 0xE2, CHR 0x9A, CHR 0xA0, CHR 0xEF, CHR 0xB8, CHR 0x8F]
             @ '' Server Error: Model belum siap''), posted_world)
   \<and> send_request (env_replying (Inr coded_reply)) recorded_world = (Inr coded_reply, posted_world)
   \<and> status_code coded_reply = 500
   \<and> response_json (env_replying (Inr coded_reply)) (content coded_reply)
       = Some (PDict [(''message'', PInt 42)])
   \<and> voice_chat (env_replying (Inr coded_reply)) (Some sample_audio) [] fresh_world
       = ((None,
           [PList [PStr ([CHR 0xE2, CHR 0x9A, CHR 0xA0, CHR 0xEF, CHR 0xB8, CHR 0x8F]
                           @ '' Server Error: 42''),
                   PNone, PStr ''10:15:00'']],
           [CHR 0xE2, CHR 0x9A, CHR 0xA0, CHR 0xEF, CHR 0xB8, CHR 0x8F]
             @ '' Server Error: 42''), posted_world)
   \<and> send_request (env_replying (Inr plain_reply)) recorded_world = (Inr plain_reply, posted_world)
   \<and> status_code plain_reply = 502
   \<and> response_json (env_replying (Inr plain_reply)) (content plain_reply) = None
   \<and> voice_chat (env_replying (Inr plain_reply)) (Some sample_audio) [] fresh_world
       = ((None,
           [PList [PStr ([CHR 0xE2, CHR 0x9A, CHR 0xA0, CHR 0xEF, CHR 0xB8, CHR 0x8F]
                           @ '' Server Error: Kode status: 502''),
                   PNone, PStr ''10:15:00'']],
           [CHR 0xE2, CHR 0x9A, CHR 0xA0, CHR 0xEF, CHR 0xB8, CHR 0x8F]
             @ '' Server Error: Kode status: 502''), posted_world)"
proof -
  let ?e = "env_replying (Inr error_reply)" and ?c = "env_replying (Inr coded_reply)"
    and ?f = "env_replying (Inr plain_reply)"
  have e1: "write_file (wav_fault ?e) (audio_path ?e) (wav_encode ?e 16000 [0, 1, 0, - 1])
              fresh_world = (None, recorded_world)"
    and c1: "write_file (wav_fault ?c) (audio_path ?c) (wav_encode ?c 16000 [0, 1, 0, - 1])
              fresh_world = (None, recorded_world)"
    and f1: "write_file (wav_fault ?f) (audio_path ?f) (wav_encode ?f 16000 [0, 1, 0, - 1])
              fresh_world = (None, recorded_world)"
    by (simp_all add: sample_simps)
  have e2: "os_path_exists recorded_world (audio_path ?e)"
    and c2: "os_path_exists recorded_world (audio_path ?c)"
    and f2: "os_path_exists recorded_world (audio_path ?f)"
    by (simp_all add: sample_simps)
  have e3: "send_request ?e recorded_world = (Inr error_reply, posted_world)"
    and c3: "send_request ?c recorded_world = (Inr coded_reply, posted_world)"
    and f3: "send_request ?f recorded_world = (Inr plain_reply, posted_world)"
    by (simp_all add: sample_simps)
  have e4: "status_code error_reply = 503" and c4: "status_code coded_reply = 500"
    and f4: "status_code plain_reply = 502"
    by (simp_all add: error_reply_def coded_reply_def plain_reply_def)
  have e5: "content error_reply \<noteq> []" and c5: "content coded_reply \<noteq> []"
    by (simp_all add: error_reply_def coded_reply_def newline_indent_def)
  have e6: "json_parse (content error_reply)
              = Some (PDict [(''message'', PStr ''Model belum siap'')])"
    by code_simp
  have c6: "json_parse (content coded_reply) = Some (PDict [(''message'', PInt 42)])"
    by code_simp
  have f6: "json_parse (content plain_reply) = None"
    by code_simp
  have lib: "response_json ?e = json_parse" "response_json ?c = json_parse"
    "response_json ?f = json_parse"
    by (simp_all add: env_replying_def sample_env_def)
  have now: "now_hms ?e = ''10:15:00''" "now_hms ?c = ''10:15:00''" "now_hms ?f = ''10:15:00''"
    by (simp_all add: env_replying_def sample_env_def)
  have str: "py_str ?c (PInt 42) = ''42''" "str_int 502 = ''502''"
    by (simp_all add: env_replying_def sample_env_def str_int_def digits.simps)
  have r1: "voice_chat ?e (Some (16000, [0, 1, 0, - 1])) [] fresh_world
      = ((None, [] @ [PList [PStr (warning_sign @ '' Server Error: '' @ ''Model belum siap''),
                             PNone, PStr (now_hms ?e)]],
          warning_sign @ '' Server Error: '' @ ''Model belum siap''), posted_world)"
    using server_error_detail [OF e1 e2 e3, of "[(''message'', PStr ''Model belum siap'')]"
        "''Model belum siap''" "[]"] e4 e5 e6 lib
    by simp
  have r2: "voice_chat ?c (Some (16000, [0, 1, 0, - 1])) [] fresh_world
      = ((None, [] @ [PList [PStr (warning_sign @ '' Server Error: '' @ py_str ?c (PInt 42)),
                             PNone, PStr (now_hms ?c)]],
          warning_sign @ '' Server Error: '' @ py_str ?c (PInt 42)), posted_world)"
    using server_error_detail [OF c1 c2 c3, of "[(''message'', PInt 42)]" _ "[]" "PInt 42"]
      c4 c5 c6 lib
    by simp
  have r3: "voice_chat ?f (Some (16000, [0, 1, 0, - 1])) [] fresh_world
      = ((None, [] @ [PList [PStr (warning_sign @ '' Server Error: Kode status: ''
                                     @ str_int (status_code plain_reply)),
                             PNone, PStr (now_hms ?f)]],
          warning_sign @ '' Server Error: Kode status: '' @ str_int (status_code plain_reply)),
         posted_world)"
    using server_error_detail [OF f1 f2 f3, of "[]"] f4 f6 lib
    by simp
  show ?thesis
    using r1 r2 r3 e3 c3 f3 e4 c4 f4 e6 c6 f6 lib now str
    by (simp add: sample_audio_def warning_sign_def)
qed

text \<open>
  C1 (as amended). A call with audio that ends without an output path ends in an error. If
  the error is SaveFailure (the input file is absent after a write that raised nothing)
  the history is returned as it was given, as for NoInput; for every other error the
  returned history is the given one with one turn appended, whose first entry is the
  returned error text and whose second entry is \<open>None\<close>.
\<close>

theorem error_is_recorded:
  assumes "voice_chat e (Some a) history w = ((None, hist, msg), w')"
  shows "if wav_fault e = Some Vanishes
         then hist = history \<and> msg = msg_save_failed
         else hist = history @ [error_turn msg (now_hms e)]"
proof -
  obtain sr audio_data where a: "a = (sr, audio_data)" by (cases a)
  from assms [unfolded a] show ?thesis
  proof (cases rule: voice_chat_cases)
    case (raised exn)
    then show ?thesis
      using raised_not_vanishes [OF raised(1)] by (simp add: error_result_def)
  next
    case absent
    then show ?thesis
      using input_absent_iff [OF absent(1)] by simp
  next
    case (timeout w1)
    then show ?thesis
      using input_absent_iff [OF timeout(1)] by (simp add: error_result_def)
  next
    case (connection w1)
    then show ?thesis
      using input_absent_iff [OF connection(1)] by (simp add: error_result_def)
  next
    case (other w1 exn)
    then show ?thesis
      using input_absent_iff [OF other(1)] by (simp add: error_result_def)
  next
    case (response w1 w2 r)
    then show ?thesis
      using input_absent_iff [OF response(1)]
        handle_response_shape [OF response(4)]
      by simp
  qed
qed

theorem error_is_recorded_witness:
  "voice_chat (env_replying (Inl TimeoutExc)) (Some sample_audio) [earlier_turn] fresh_world
     = ((None, [earlier_turn, error_turn msg_timeout ''10:15:00''], msg_timeout), posted_world)
   \<and> wav_fault (env_replying (Inl TimeoutExc)) \<noteq> Some Vanishes
   \<and> [earlier_turn, error_turn msg_timeout ''10:15:00'']
       = [earlier_turn] @ [error_turn msg_timeout (now_hms (env_replying (Inl TimeoutExc)))]"
proof -
  let ?e = "env_replying (Inl TimeoutExc)"
  have h: "voice_chat ?e (Some sample_audio) [earlier_turn] fresh_world
     = ((None, [earlier_turn, error_turn msg_timeout ''10:15:00''], msg_timeout), posted_world)"
    by (simp add: sample_simps sample_audio_def)
  have f: "wav_fault ?e \<noteq> Some Vanishes"
    by (simp add: env_replying_def sample_env_def)
  show ?thesis
    using error_is_recorded [OF h] h f by simp
qed

text \<open>
  C1 as it was stated fails for SaveFailure: when the input file is absent after the write,
  the call returns the history it was given, here the empty one, and not that history with
  an error turn appended.
\<close>

theorem error_is_recorded_counterexample:
  "fst (voice_chat (sample_env\<lparr>wav_fault := Some Vanishes\<rparr>) (Some sample_audio) [] fresh_world)
     = (None, [], msg_save_failed)
   \<and> [] \<noteq> [] @ [error_turn msg_save_failed ''10:15:00'']"
  by (simp add: sample_simps sample_audio_def)

text \<open>
  C2 (as amended). A call that appends the success turn has written the whole updated
  history to the history file when it returns, provided that write does not fail (a failure
  is logged and the call still succeeds). A call that ends in an error leaves the history
  file as it was: error turns are returned to the caller only.
\<close>

theorem history_file_after_call:
  assumes "voice_chat e (Some a) history w = ((out, hist, msg), w')"
  shows "(out \<noteq> None \<and> save_fault e = None
            \<longrightarrow> files w' (HISTORY_PATH e) = Some (json_dumps e (PList hist)))
         \<and> (out = None \<longrightarrow> files w' (HISTORY_PATH e) = files w (HISTORY_PATH e))"
proof -
  obtain sr audio_data where a: "a = (sr, audio_data)" by (cases a)
  note ne = HISTORY_PATH_not_input [of e, symmetric]
  from assms [unfolded a] show ?thesis
  proof (cases rule: voice_chat_cases)
    case (raised exn)
    then show ?thesis using write_file_other [OF raised(1) ne] by (simp add: error_result_def)
  next
    case absent
    then show ?thesis using write_file_other [OF absent(1) ne] by simp
  next
    case (timeout w1)
    then show ?thesis
      using write_file_other [OF timeout(1) ne] send_request_files [OF timeout(3)]
      by (simp add: error_result_def)
  next
    case (connection w1)
    then show ?thesis
      using write_file_other [OF connection(1) ne] send_request_files [OF connection(3)]
      by (simp add: error_result_def)
  next
    case (other w1 exn)
    then show ?thesis
      using write_file_other [OF other(1) ne] send_request_files [OF other(3)]
      by (simp add: error_result_def)
  next
    case (response w1 w2 r)
    have pre: "files w2 (HISTORY_PATH e) = files w (HISTORY_PATH e)"
      using write_file_other [OF response(1) ne] send_request_files [OF response(3)] by simp
    show ?thesis
    proof (cases out)
      case None
      then show ?thesis
        using handle_response_error_file [of e r history "now_hms e" w2 hist msg w']
          response(4) pre
        by simp
    next
      case (Some p)
      then show ?thesis
        using handle_response_saved [of e r history "now_hms e" w2 p hist msg w'] response(4)
        by simp
    qed
  qed
qed

theorem history_file_after_call_witness:
  "fst (voice_chat sample_env (Some sample_audio) [] fresh_world)
     = (Some (output_audio_path sample_env), [success_turn ''10:15:00''], msg_success)
   \<and> save_fault sample_env = None
   \<and> files (snd (voice_chat sample_env (Some sample_audio) [] fresh_world))
        (HISTORY_PATH sample_env)
       = Some (json_dumps sample_env (PList [success_turn ''10:15:00'']))
   \<and> voice_chat (env_replying (Inl ConnectionErrorExc)) (Some sample_audio) [] earlier_world
       = ((None, [error_turn msg_connection ''10:15:00''], msg_connection),
          earlier_world\<lparr>files := (files earlier_world)(audio_path sample_env \<mapsto> ''RIFF-input''),
                          net_calls := 1\<rparr>)
   \<and> files (earlier_world\<lparr>files := (files earlier_world)(audio_path sample_env \<mapsto> ''RIFF-input''),
                           net_calls := 1\<rparr>) (HISTORY_PATH sample_env)
       = Some earlier_text"
proof -
  let ?e = "env_replying (Inl ConnectionErrorExc)"
  let ?w = "earlier_world\<lparr>files := (files earlier_world)(audio_path sample_env \<mapsto> ''RIFF-input''),
                          net_calls := 1\<rparr>"
  obtain w' where ok: "voice_chat sample_env (Some sample_audio) [] fresh_world
     = ((Some (output_audio_path sample_env), [success_turn ''10:15:00''], msg_success), w')"
    by (simp add: sample_simps sample_audio_def sample_reply_def)
  have s: "save_fault sample_env = None"
    by (simp add: sample_env_def)
  have err: "voice_chat ?e (Some sample_audio) [] earlier_world
       = ((None, [error_turn msg_connection ''10:15:00''], msg_connection), ?w)"
    by (simp add: sample_simps sample_audio_def earlier_world_def)
  have p: "HISTORY_PATH ?e = HISTORY_PATH sample_env"
    by (simp add: HISTORY_PATH_def env_replying_def)
  have before: "files earlier_world (HISTORY_PATH sample_env) = Some earlier_text"
    by (simp add: earlier_world_def)
  show ?thesis
    using history_file_after_call [OF ok] history_file_after_call [OF err] ok s err p before
    by simp
qed

text \<open>
  C2 as it was stated fails twice. A call that ends in the Timeout error appends the error
  turn, yet no history file exists afterwards; and a call that succeeds while the write of
  the history file raises appends the success turn, yet no history file exists afterwards.
\<close>

theorem history_file_after_call_counterexample:
  "voice_chat (env_replying (Inl TimeoutExc)) (Some sample_audio) [] fresh_world
     = ((None, [] @ [error_turn msg_timeout ''10:15:00''], msg_timeout), posted_world)
   \<and> files posted_world (HISTORY_PATH (env_replying (Inl TimeoutExc))) = None
   \<and> fst (voice_chat (sample_env\<lparr>save_fault := Some (Raises ''Permission denied'' None)\<rparr>)
            (Some sample_audio) [] fresh_world)
       = (Some (output_audio_path sample_env), [] @ [success_turn ''10:15:00''], msg_success)
   \<and> files (snd (voice_chat (sample_env\<lparr>save_fault := Some (Raises ''Permission denied'' None)\<rparr>)
            (Some sample_audio) [] fresh_world))
        (HISTORY_PATH (sample_env\<lparr>save_fault := Some (Raises ''Permission denied'' None)\<rparr>))
       = None"
  by (simp add: sample_simps sample_audio_def sample_reply_def)




text \<open>
  C10 (as amended). When the history is a list and the statements before the \<^verbatim>\<open>try\<close> raise
  nothing, \<open>voice_chat\<close> returns a triple whatever the audio, the faults of the file operations
  and the answer or the exception of the transport are: no exception leaves it. The triple is
  an error result (no output path) or the success result. An exception of the input write
  reaches the outer handler and becomes the Unexpected error result, and a returned output
  path means that no exception was raised where \<open>voice_chat\<close> catches one: the input was
  written, the request was answered and the output was written.
\<close>

theorem voice_chat_returns:
  assumes "start_fault e = None"
  shows "(\<exists>out hist msg w'.
            voice_chat_py e audio (PList history) w = (Inr (out, PList hist, msg), w')
            \<and> voice_chat e audio history w = ((out, hist, msg), w')
            \<and> (out = None
                \<or> (out = Some (output_audio_path e)
                    \<and> hist = history @ [success_turn (now_hms e)] \<and> msg = msg_success)))
         \<and> (audio = Some (sr, audio_data)
              \<and> write_file (wav_fault e) (audio_path e) (wav_encode e sr audio_data) w
                  = (Some exn, w1)
            \<longrightarrow> voice_chat_py e audio (PList history) w
                  = (Inr (None, PList (history @ [error_turn (msg_unexpected exn) (now_hms e)]),
                          msg_unexpected exn), w1))
         \<and> (audio = Some (sr, audio_data)
              \<and> (\<exists>p hist msg w'. voice_chat_py e audio (PList history) w
                                    = (Inr (Some p, hist, msg), w'))
            \<longrightarrow> (\<exists>w1 r w2 w3.
                   write_file (wav_fault e) (audio_path e) (wav_encode e sr audio_data) w
                     = (None, w1)
                   \<and> send_request e w1 = (Inr r, w2)
                   \<and> write_file (out_fault e) (output_audio_path e) (content r) w2
                       = (None, w3)))"
proof -
  obtain out hist msg w' where res: "voice_chat e audio history w = ((out, hist, msg), w')"
    by (metis surj_pair)
  have py: "voice_chat_py e audio (PList history) w = (Inr (out, PList hist, msg), w')"
    using voice_chat_py_list [OF assms, of audio history w] res by simp
  have shape: "out = None
      \<or> (out = Some (output_audio_path e) \<and> hist = history @ [success_turn (now_hms e)]
          \<and> msg = msg_success)"
  proof (cases audio)
    case None
    then show ?thesis using res by (simp add: voice_chat_def)
  next
    case (Some b)
    obtain sr' ad' where b: "b = (sr', ad')" by (cases b)
    from res [unfolded Some b] show ?thesis
    proof (cases rule: voice_chat_cases)
      case (response w1 w2 r)
      then show ?thesis using handle_response_shape [OF response(4)] by blast
    qed (simp_all add: error_result_def)
  qed
  have first: "\<exists>out hist msg w'.
            voice_chat_py e audio (PList history) w = (Inr (out, PList hist, msg), w')
            \<and> voice_chat e audio history w = ((out, hist, msg), w')
            \<and> (out = None
                \<or> (out = Some (output_audio_path e)
                    \<and> hist = history @ [success_turn (now_hms e)] \<and> msg = msg_success))"
    using res py shape by blast
  have second: "voice_chat_py e audio (PList history) w
                  = (Inr (None, PList (history @ [error_turn (msg_unexpected exn) (now_hms e)]),
                          msg_unexpected exn), w1)"
    if "audio = Some (sr, audio_data)"
      and "write_file (wav_fault e) (audio_path e) (wav_encode e sr audio_data) w = (Some exn, w1)"
    using that assms
    by (simp add: voice_chat_py_def voice_chat_try_py_def error_return_list)
  have third: "\<exists>w1 r w2 w3.
               write_file (wav_fault e) (audio_path e) (wav_encode e sr audio_data) w = (None, w1)
               \<and> send_request e w1 = (Inr r, w2)
               \<and> write_file (out_fault e) (output_audio_path e) (content r) w2 = (None, w3)"
    if au: "audio = Some (sr, audio_data)"
      and ok: "\<exists>p hist msg w'. voice_chat_py e audio (PList history) w
                                  = (Inr (Some p, hist, msg), w')"
  proof -
    have out: "out \<noteq> None" using ok py by auto
    from res [unfolded au] show ?thesis
    proof (cases rule: voice_chat_cases)
      case (response w1 w2 r)
      then show ?thesis using handle_response_shape [OF response(4)] out by blast
    qed (use out in \<open>simp_all add: error_result_def\<close>)
  qed
  show ?thesis using first second third by blast
qed

theorem voice_chat_returns_witness:
  "start_fault sample_env = None
   \<and> write_file (Some (Raises ''Unsupported data type'' None)) (audio_path sample_env)
        ''RIFF-input'' fresh_world = (Some ''Unsupported data type'', fresh_world)
   \<and> voice_chat_py (sample_env\<lparr>wav_fault := Some (Raises ''Unsupported data type'' None)\<rparr>)
        (Some sample_audio) (PList []) fresh_world
       = (Inr (None, PList [error_turn (msg_unexpected ''Unsupported data type'') ''10:15:00''],
               msg_unexpected ''Unsupported data type''), fresh_world)
   \<and> fst (voice_chat_py sample_env (Some sample_audio) (PList []) fresh_world)
       = Inr (Some (output_audio_path sample_env), PList [success_turn ''10:15:00''],
              msg_success)
   \<and> write_file (wav_fault sample_env) (audio_path sample_env) ''RIFF-input'' fresh_world
       = (None, recorded_world)
   \<and> send_request sample_env recorded_world = (Inr sample_reply, posted_world)
   \<and> fst (write_file (out_fault sample_env) (output_audio_path sample_env)
            (content sample_reply) posted_world) = None"
proof -
  let ?e = "sample_env\<lparr>wav_fault := Some (Raises ''Unsupported data type'' None)\<rparr>"
  have s1: "start_fault ?e = None" and s2: "start_fault sample_env = None"
    by (simp_all add: sample_env_def)
  have raised: "write_file (wav_fault ?e) (audio_path ?e) (wav_encode ?e 16000 [0, 1, 0, - 1])
                  fresh_world = (Some ''Unsupported data type'', fresh_world)"
    by (simp add: sample_env_def)
  have caught: "voice_chat_py ?e (Some sample_audio) (PList []) fresh_world
       = (Inr (None, PList ([] @ [error_turn (msg_unexpected ''Unsupported data type'')
                                    (now_hms ?e)]),
               msg_unexpected ''Unsupported data type''), fresh_world)"
    using voice_chat_returns [OF s1, of "Some sample_audio" "[]" fresh_world 16000
        "[0, 1, 0, - 1]" "''Unsupported data type''" fresh_world] raised
    by (simp add: sample_audio_def)
  have played: "fst (voice_chat_py sample_env (Some sample_audio) (PList []) fresh_world)
       = Inr (Some (output_audio_path sample_env), PList [success_turn ''10:15:00''],
              msg_success)"
    using voice_chat_returns [OF s2, of "Some sample_audio" "[]" fresh_world]
    by (simp add: sample_simps sample_py_simps sample_audio_def sample_reply_def)
  show ?thesis
    using caught played s2
    by (simp add: sample_simps sample_reply_def)
qed

text \<open>
  C10 as it was stated fails. The history file may hold valid JSON that is no array; then
  \<open>load_chat_history\<close> returns that value, here an empty object, and \<open>voice_chat\<close>, called with
  it after the reply was received and written, raises \<^verbatim>\<open>TypeError\<close> at the concatenation, raises
  it again in the outer handler, and the exception leaves \<open>voice_chat\<close>.
\<close>

theorem voice_chat_returns_counterexample:
  "load_chat_history sample_env object_world = PDict []
   \<and> fst (voice_chat_py sample_env (Some sample_audio)
             (load_chat_history sample_env object_world) object_world)
       = Inl (''unsupported operand type(s) for +: '' @ [CHR 0x27] @ ''dict'' @ [CHR 0x27]
               @ '' and '' @ [CHR 0x27] @ ''list'' @ [CHR 0x27])"
proof -
  have parse: "json_parse ''{}'' = Some (PDict [])"
    by code_simp
  have loaded: "load_chat_history sample_env object_world = PDict []"
    using parse
    by (simp add: load_chat_history_def os_path_exists_def object_world_def sample_env_def)
  show ?thesis
    unfolding loaded
    by (simp add: sample_simps sample_py_simps sample_audio_def sample_reply_def
        object_world_def concat_error_def)
qed


end
